theory Spec2Isabelle
  imports Complex_Main "HOL-Library.Word"
begin

section \<open>Order-book cache and trade-decision engine (namespace sovereign)\<close>

text \<open>
  Shallow embedding of \<^verbatim>\<open>order_book_types.hpp\<close>, \<^verbatim>\<open>impact_calculator.hpp\<close>,
  \<^verbatim>\<open>order_book_cache.hpp\<close> and \<^verbatim>\<open>signal_handler.hpp\<close>.

  Conventions of the embedding:
  \<^item> \<^verbatim>\<open>double\<close> is modelled by \<^typ>\<open>real\<close>: arithmetic is exact, there is no rounding,
    no NaN and no infinity. Every division of the modelled code is guarded by the code
    itself (\<^verbatim>\<open>volume_filled > 0.0\<close>, \<^verbatim>\<open>start_price > 0.0\<close>), except the basis term of the
    futures adjustment.
  \<^item> \<^verbatim>\<open>uint64_t\<close> sequence counters are \<^typ>\<open>64 word\<close>, so \<open>+ 1\<close> wraps as in the code.
  \<^item> \<^verbatim>\<open>std::chrono::steady_clock::time_point\<close> is an \<^typ>\<open>int\<close> number of nanosecond
    ticks; the default-constructed time point is \<open>0\<close>. Every function that reads the clock
    takes the reading \<open>now\<close> as an argument.
  \<^item> \<^verbatim>\<open>enum class Exchange : uint8_t\<close> is modelled by the value of the enumerator
    (\<^verbatim>\<open>static_cast<size_t>\<close> is the identity); \<open>Exchange_COUNT = 110\<close> is the sentinel.
  \<^item> Locks are not modelled: every method body is one atomic state transition.
    The optional update callbacks and the \<^verbatim>\<open>processing_ns\<close> stamp are outside the state
    and are left out.
\<close>

subsection \<open>Exchange identifiers (order\_book\_types.hpp)\<close>

type_synonym Exchange = nat

text \<open>The enumerators of \<^verbatim>\<open>enum class Exchange\<close> in declaration order; the enumerator at
  position \<open>i\<close> has value \<open>i\<close> (\<^verbatim>\<open>APEX = 0\<close>), and \<^verbatim>\<open>COUNT\<close> follows the last one.\<close>

definition Exchange_enumerators :: "string list" where
  "Exchange_enumerators = [
   ''APEX'', ''ARKHAM'', ''ASCENDEX'', ''BACKPACK'', ''BIGONE'', ''BINANCE'',
   ''BINANCECOINM'', ''BINANCEUSDM'', ''BINGX'', ''BITFINEX'', ''BITFLYER'', ''BITGET'',
   ''BITMART'', ''BITMEX'', ''BITRUE'', ''BLOFIN'', ''BULLISH'', ''BYBIT'', ''COINBASE'',
   ''COINBASEADVANCED'', ''COINBASEINTERNATIONAL'', ''COINCATCH'', ''COINEX'',
   ''CRYPTOCOM'', ''DEEPCOIN'', ''DEFX'', ''DELTA'', ''DERIBIT'', ''DERIVE'',
   ''DIGIFINEX'', ''DYDX'', ''FMFWIO'', ''GATE'', ''GATEIO'', ''GEMINI'', ''HASHKEY'',
   ''HIBACHI'', ''HITBTC'', ''HTX'', ''HUOBI'', ''HYPERLIQUID'', ''KRAKENFUTURES'',
   ''KUCOINFUTURES'', ''LBANK'', ''MEXC'', ''MODETRADE'', ''MYOKX'', ''OKX'', ''OKXUS'',
   ''ONETRADING'', ''PARADEX'', ''PHEMEX'', ''POLONIEX'', ''TOOBIT'', ''WHITEBIT'',
   ''WOOFIPRO'', ''XT'', ''ZEBPAY'', ''ALPACA'', ''BEQUANT'', ''BINANCEUS'', ''BIT2C'',
   ''BITBANK'', ''BITBNS'', ''BITHUMB'', ''BITOPRO'', ''BITSO'', ''BITSTAMP'', ''BITTEAM'',
   ''BITTRADE'', ''BITVAVO'', ''BLOCKCHAINCOM'', ''BTCALPHA'', ''BTCBOX'', ''BTCMARKETS'',
   ''BTCTURK'', ''CEX'', ''COINBASEEXCHANGE'', ''COINCHECK'', ''COINMATE'', ''COINMETRO'',
   ''COINONE'', ''COINSPH'', ''COINSPOT'', ''CRYPTOMUS'', ''EXMO'', ''FOXBIT'',
   ''HOLLAEX'', ''INDEPENDENTRESERVE'', ''INDODAX'', ''KRAKEN'', ''KUCOIN'', ''LATOKEN'',
   ''LUNO'', ''MERCADO'', ''NDAX'', ''NOVADAX'', ''OCEANEX'', ''OXFUN'', ''P2B'',
   ''PAYMIUM'', ''PROBIT'', ''TIMEX'', ''TOKOCRYPTO'', ''UPBIT'', ''WAVESEXCHANGE'',
   ''WOO'', ''YOBIT'', ''ZAIF'', ''ZONDA'']"

definition Exchange_COUNT :: Exchange where
  "Exchange_COUNT = 110"

definition BINANCE :: Exchange where
  "BINANCE = 5"

definition GEMINI :: Exchange where
  "GEMINI = 34"

definition EXCHANGE_NAMES :: "string list" where
  "EXCHANGE_NAMES = [
   ''apex'', ''arkham'', ''ascendex'', ''backpack'', ''bigone'', ''binance'',
   ''binancecoinm'', ''binanceusdm'', ''bingx'', ''bitfinex'', ''bitflyer'', ''bitget'',
   ''bitmart'', ''bitmex'', ''bitrue'', ''blofin'', ''bullish'', ''bybit'', ''coinbase'',
   ''coinbaseadvanced'', ''coinbaseinternational'', ''coincatch'', ''coinex'',
   ''cryptocom'', ''deepcoin'', ''defx'', ''delta'', ''deribit'', ''derive'',
   ''digifinex'', ''dydx'', ''fmfwio'', ''gate'', ''gateio'', ''gemini'', ''hashkey'',
   ''hibachi'', ''hitbtc'', ''htx'', ''huobi'', ''hyperliquid'', ''krakenfutures'',
   ''kucoinfutures'', ''lbank'', ''mexc'', ''modetrade'', ''myokx'', ''okx'', ''okxus'',
   ''onetrading'', ''paradex'', ''phemex'', ''poloniex'', ''toobit'', ''whitebit'',
   ''woofipro'', ''xt'', ''zebpay'', ''alpaca'', ''bequant'', ''binanceus'', ''bit2c'',
   ''bitbank'', ''bitbns'', ''bithumb'', ''bitopro'', ''bitso'', ''bitstamp'', ''bitteam'',
   ''bittrade'', ''bitvavo'', ''blockchaincom'', ''btcalpha'', ''btcbox'', ''btcmarkets'',
   ''btcturk'', ''cex'', ''coinbaseexchange'', ''coincheck'', ''coinmate'', ''coinmetro'',
   ''coinone'', ''coinsph'', ''coinspot'', ''cryptomus'', ''exmo'', ''foxbit'',
   ''hollaex'', ''independentreserve'', ''indodax'', ''kraken'', ''kucoin'', ''latoken'',
   ''luno'', ''mercado'', ''ndax'', ''novadax'', ''oceanex'', ''oxfun'', ''p2b'',
   ''paymium'', ''probit'', ''timex'', ''tokocrypto'', ''upbit'', ''wavesexchange'',
   ''woo'', ''yobit'', ''zaif'', ''zonda'']"

definition exchange_name :: "Exchange \<Rightarrow> string" where
  "exchange_name ex =
     (if ex \<ge> Exchange_COUNT then ''unknown'' else EXCHANGE_NAMES ! ex)"

text \<open>The \<^verbatim>\<open>for\<close> loop of \<^verbatim>\<open>exchange_from_name\<close>, started at index \<open>i\<close>.\<close>

function exchange_from_name_loop :: "nat \<Rightarrow> string \<Rightarrow> Exchange" where
  "exchange_from_name_loop i name =
     (if i < Exchange_COUNT
      then (if name = EXCHANGE_NAMES ! i then i
            else exchange_from_name_loop (Suc i) name)
      else Exchange_COUNT)"
  by pat_completeness auto
termination
  by (relation "measure (\<lambda>(i, name). Exchange_COUNT - i)") auto

definition exchange_from_name :: "string \<Rightarrow> Exchange" where
  "exchange_from_name name = exchange_from_name_loop 0 name"

text \<open>ASCII lower-casing (setting bit 5 of an upper-case letter), used only to relate
  the enumerator identifiers to the entries of the name table.\<close>

definition ascii_lower :: "char \<Rightarrow> char" where
  "ascii_lower c =
     (if c \<in> set ''ABCDEFGHIJKLMNOPQRSTUVWXYZ''
      then (case c of Char b0 b1 b2 b3 b4 b5 b6 b7 \<Rightarrow> Char b0 b1 b2 b3 b4 True b6 b7)
      else c)"

subsection \<open>Instrument types\<close>

datatype InstrumentType =
  SPOT | MARGIN | PERPETUAL | FUTURES | OPTIONS | INVERSE | LEVERAGED_TOKEN | INST_COUNT

text \<open>\<^verbatim>\<open>static_cast<size_t>(type)\<close>.\<close>

fun InstrumentType_index :: "InstrumentType \<Rightarrow> nat" where
  "InstrumentType_index SPOT = 0"
| "InstrumentType_index MARGIN = 1"
| "InstrumentType_index PERPETUAL = 2"
| "InstrumentType_index FUTURES = 3"
| "InstrumentType_index OPTIONS = 4"
| "InstrumentType_index INVERSE = 5"
| "InstrumentType_index LEVERAGED_TOKEN = 6"
| "InstrumentType_index INST_COUNT = 7"

definition INSTRUMENT_NAMES :: "string list" where
  "INSTRUMENT_NAMES =
     [''spot'', ''margin'', ''perpetual'', ''futures'', ''options'', ''inverse'',
      ''leveraged_token'']"

definition instrument_name :: "InstrumentType \<Rightarrow> string" where
  "instrument_name t =
     (if InstrumentType_index t \<ge> InstrumentType_index INST_COUNT then ''unknown''
      else INSTRUMENT_NAMES ! InstrumentType_index t)"

subsection \<open>Exchange configuration\<close>

text \<open>\<^verbatim>\<open>struct ExchangeConfig\<close> without its URL and symbol strings, which no modelled
  function reads.\<close>

record ExchangeConfig =
  id :: Exchange
  has_websocket :: bool
  has_perpetual :: bool
  max_leverage :: int
  fee_pct :: real

text \<open>The \<^verbatim>\<open>switch\<close> of \<^verbatim>\<open>get_exchange_config\<close> as a table in enumerator order: each
  row is one \<^verbatim>\<open>case\<close>, as (enumerator, \<^verbatim>\<open>has_websocket\<close>, \<^verbatim>\<open>has_perpetual\<close>, \<^verbatim>\<open>max_leverage\<close>,
  \<^verbatim>\<open>fee_pct\<close>); the \<^verbatim>\<open>default\<close> case is the last branch of \<open>get_exchange_config\<close>.\<close>

definition EXCHANGE_CONFIG_ROWS :: "(string \<times> bool \<times> bool \<times> int \<times> real) list" where
  "EXCHANGE_CONFIG_ROWS = [
   (''APEX'', True, True, 100, 2 / 1000),
   (''ARKHAM'', False, True, 50, 3 / 1000),
   (''ASCENDEX'', True, True, 100, 2 / 1000),
   (''BACKPACK'', True, True, 50, 2 / 1000),
   (''BIGONE'', True, True, 100, 2 / 1000),
   (''BINANCE'', True, True, 125, 1 / 1000),
   (''BINANCECOINM'', True, True, 125, 1 / 1000),
   (''BINANCEUSDM'', True, True, 125, 1 / 1000),
   (''BINGX'', True, True, 150, 2 / 1000),
   (''BITFINEX'', True, True, 100, 2 / 1000),
   (''BITFLYER'', True, True, 4, 2 / 1000),
   (''BITGET'', True, True, 125, 2 / 1000),
   (''BITMART'', True, True, 100, 2 / 1000),
   (''BITMEX'', True, True, 100, 1 / 1000),
   (''BITRUE'', True, True, 125, 2 / 1000),
   (''BLOFIN'', True, True, 150, 2 / 1000),
   (''BULLISH'', True, True, 20, 2 / 1000),
   (''BYBIT'', True, True, 100, 1 / 1000),
   (''COINBASE'', True, True, 10, 5 / 1000),
   (''COINBASEADVANCED'', True, True, 10, 5 / 1000),
   (''COINBASEINTERNATIONAL'', True, True, 10, 2 / 1000),
   (''COINCATCH'', True, True, 125, 2 / 1000),
   (''COINEX'', True, True, 100, 2 / 1000),
   (''CRYPTOCOM'', True, True, 50, 2 / 1000),
   (''DEEPCOIN'', True, True, 125, 2 / 1000),
   (''DEFX'', False, True, 50, 2 / 1000),
   (''DELTA'', True, True, 100, 2 / 1000),
   (''DERIBIT'', True, True, 50, 1 / 1000),
   (''DERIVE'', False, True, 20, 2 / 1000),
   (''DIGIFINEX'', True, True, 100, 2 / 1000),
   (''DYDX'', True, True, 20, 1 / 1000),
   (''FMFWIO'', True, True, 100, 2 / 1000),
   (''GATE'', True, True, 100, 2 / 1000),
   (''GATEIO'', True, True, 100, 2 / 1000),
   (''GEMINI'', True, True, 100, 4 / 1000),
   (''HASHKEY'', True, True, 50, 2 / 1000),
   (''HIBACHI'', True, True, 50, 2 / 1000),
   (''HITBTC'', True, True, 75, 2 / 1000),
   (''HTX'', True, True, 200, 2 / 1000),
   (''HUOBI'', True, True, 200, 2 / 1000),
   (''HYPERLIQUID'', True, True, 50, 1 / 1000),
   (''KRAKENFUTURES'', True, True, 50, 2 / 1000),
   (''KUCOINFUTURES'', True, True, 100, 2 / 1000),
   (''LBANK'', True, True, 125, 2 / 1000),
   (''MEXC'', True, True, 200, 2 / 1000),
   (''MODETRADE'', False, True, 50, 2 / 1000),
   (''MYOKX'', True, True, 125, 1 / 1000),
   (''OKX'', True, True, 125, 1 / 1000),
   (''OKXUS'', True, True, 125, 1 / 1000),
   (''ONETRADING'', True, True, 5, 2 / 1000),
   (''PARADEX'', True, True, 20, 2 / 1000),
   (''PHEMEX'', True, True, 100, 2 / 1000),
   (''POLONIEX'', True, True, 75, 3 / 1000),
   (''TOOBIT'', True, True, 150, 2 / 1000),
   (''WHITEBIT'', True, True, 100, 2 / 1000),
   (''WOOFIPRO'', True, True, 20, 2 / 1000),
   (''XT'', True, True, 125, 2 / 1000),
   (''ZEBPAY'', False, True, 75, 5 / 1000),
   (''ALPACA'', True, False, 1, 2 / 1000),
   (''BEQUANT'', True, False, 1, 2 / 1000),
   (''BINANCEUS'', True, False, 1, 1 / 1000),
   (''BIT2C'', False, False, 1, 5 / 1000),
   (''BITBANK'', True, False, 1, 2 / 1000),
   (''BITBNS'', False, False, 1, 5 / 1000),
   (''BITHUMB'', True, False, 1, 2 / 1000),
   (''BITOPRO'', True, False, 1, 2 / 1000),
   (''BITSO'', True, False, 1, 5 / 1000),
   (''BITSTAMP'', True, False, 1, 5 / 1000),
   (''BITTEAM'', False, False, 1, 2 / 1000),
   (''BITTRADE'', False, False, 1, 2 / 1000),
   (''BITVAVO'', True, False, 1, 2 / 1000),
   (''BLOCKCHAINCOM'', True, False, 1, 2 / 1000),
   (''BTCALPHA'', False, False, 1, 2 / 1000),
   (''BTCBOX'', False, False, 1, 2 / 1000),
   (''BTCMARKETS'', True, False, 1, 2 / 1000),
   (''BTCTURK'', True, False, 1, 2 / 1000),
   (''CEX'', True, False, 1, 2 / 1000),
   (''COINBASEEXCHANGE'', True, False, 1, 5 / 1000),
   (''COINCHECK'', True, False, 1, 2 / 1000),
   (''COINMATE'', True, False, 1, 2 / 1000),
   (''COINMETRO'', True, False, 1, 2 / 1000),
   (''COINONE'', False, False, 1, 2 / 1000),
   (''COINSPH'', False, False, 1, 2 / 1000),
   (''COINSPOT'', False, False, 1, 5 / 1000),
   (''CRYPTOMUS'', False, False, 1, 2 / 1000),
   (''EXMO'', True, False, 1, 2 / 1000),
   (''FOXBIT'', False, False, 1, 2 / 1000),
   (''HOLLAEX'', True, False, 1, 2 / 1000),
   (''INDEPENDENTRESERVE'', False, False, 1, 5 / 1000),
   (''INDODAX'', True, False, 1, 3 / 1000),
   (''KRAKEN'', True, False, 1, 2 / 1000),
   (''KUCOIN'', True, False, 1, 2 / 1000),
   (''LATOKEN'', True, False, 1, 2 / 1000),
   (''LUNO'', True, False, 1, 2 / 1000),
   (''MERCADO'', False, False, 1, 3 / 1000),
   (''NDAX'', True, False, 1, 2 / 1000),
   (''NOVADAX'', True, False, 1, 2 / 1000),
   (''OCEANEX'', True, False, 1, 2 / 1000),
   (''OXFUN'', True, False, 1, 2 / 1000),
   (''P2B'', True, False, 1, 2 / 1000),
   (''PAYMIUM'', False, False, 1, 5 / 1000),
   (''PROBIT'', True, False, 1, 2 / 1000),
   (''TIMEX'', True, False, 1, 2 / 1000),
   (''TOKOCRYPTO'', True, False, 1, 2 / 1000),
   (''UPBIT'', True, False, 1, 2 / 1000),
   (''WAVESEXCHANGE'', True, False, 1, 2 / 1000),
   (''WOO'', True, False, 1, 2 / 1000),
   (''YOBIT'', False, False, 1, 2 / 1000),
   (''ZAIF'', True, False, 1, 2 / 1000),
   (''ZONDA'', True, False, 1, 2 / 1000)]"

definition get_exchange_config :: "Exchange \<Rightarrow> ExchangeConfig" where
  "get_exchange_config ex =
     (if ex < Exchange_COUNT
      then (case EXCHANGE_CONFIG_ROWS ! ex of (enumerator, ws, perp, lev, fee) \<Rightarrow>
              \<lparr>id = ex, has_websocket = ws, has_perpetual = perp,
               max_leverage = lev, fee_pct = fee\<rparr>)
      else \<lparr>id = Exchange_COUNT, has_websocket = False, has_perpetual = False,
            max_leverage = 1, fee_pct = 5 / 1000\<rparr>)"

definition get_config :: "Exchange \<Rightarrow> ExchangeConfig" where
  "get_config ex = get_exchange_config ex"

subsection \<open>Price levels and order books\<close>

record PriceLevel =
  price :: real
  volume :: real

type_synonym time_point = int

record OrderBook =
  bids :: "PriceLevel list"
  asks :: "PriceLevel list"
  timestamp :: time_point
  sequence :: "64 word"

text \<open>The default-constructed \<^verbatim>\<open>OrderBook{}\<close>.\<close>

definition OrderBook_default :: OrderBook where
  "OrderBook_default = \<lparr>bids = [], asks = [], timestamp = 0, sequence = 0\<rparr>"

definition OrderBook_is_valid :: "OrderBook \<Rightarrow> bool" where
  "OrderBook_is_valid b = (bids b \<noteq> [] \<and> asks b \<noteq> [])"

definition best_bid :: "OrderBook \<Rightarrow> real" where
  "best_bid b = (if bids b = [] then 0 else price (bids b ! 0))"

definition best_ask :: "OrderBook \<Rightarrow> real" where
  "best_ask b = (if asks b = [] then 0 else price (asks b ! 0))"

definition mid_price :: "OrderBook \<Rightarrow> real" where
  "mid_price b =
     (let bid = best_bid b; ask = best_ask b
      in if bid \<le> 0 \<or> ask \<le> 0 then 0 else (bid + ask) / 2)"

text \<open>\<^verbatim>\<open>duration_cast<milliseconds>\<close> of a nanosecond difference: truncation towards zero.\<close>

definition duration_ms :: "int \<Rightarrow> int" where
  "duration_ms d = (if 0 \<le> d then d div 1000000 else - ((- d) div 1000000))"

definition OrderBook_age_ms :: "time_point \<Rightarrow> OrderBook \<Rightarrow> int" where
  "OrderBook_age_ms now b = duration_ms (now - timestamp b)"

definition OrderBook_clear :: "OrderBook \<Rightarrow> OrderBook" where
  "OrderBook_clear b = b\<lparr>bids := [], asks := [], timestamp := 0\<rparr>"

subsection \<open>Instrument data\<close>

record InstrumentData =
  type_inst :: InstrumentType
  book :: OrderBook
  last_price :: real
  volume_24h :: real
  timestamp_inst :: time_point
  sequence_inst :: "64 word"
  mark_price :: real
  index_price :: real
  funding_rate :: real
  next_funding_ts :: int
  predicted_funding :: real
  expiration_ts :: int
  basis :: real
  basis_rate :: real
  strike :: real
  implied_vol :: real
  is_call :: bool
  delta :: real
  gamma :: real
  theta :: real
  vega :: real
  rho :: real
  underlying_price :: real
  time_to_expiry :: real
  interest_rate_long :: real
  interest_rate_short :: real
  max_leverage_inst :: real
  maintenance_margin :: real
  contract_size :: real
  contract_value :: real
  nav :: real
  real_leverage :: real
  target_leverage :: real
  rebalance_ts :: int
  basket :: real

text \<open>The default-constructed \<^verbatim>\<open>InstrumentData{}\<close>, with the default member initialisers
  of the struct.\<close>

definition InstrumentData_default :: InstrumentData where
  "InstrumentData_default =
     \<lparr>type_inst = SPOT, book = OrderBook_default, last_price = 0, volume_24h = 0,
      timestamp_inst = 0, sequence_inst = 0, mark_price = 0, index_price = 0,
      funding_rate = 0, next_funding_ts = 0, predicted_funding = 0,
      expiration_ts = 0, basis = 0, basis_rate = 0,
      strike = 0, implied_vol = 0, is_call = True, delta = 0, gamma = 0, theta = 0,
      vega = 0, rho = 0, underlying_price = 0, time_to_expiry = 0,
      interest_rate_long = 0, interest_rate_short = 0, max_leverage_inst = 1,
      maintenance_margin = 0, contract_size = 1, contract_value = 0,
      nav = 0, real_leverage = 0, target_leverage = 3, rebalance_ts = 0, basket = 0\<rparr>"

definition InstrumentData_is_valid :: "InstrumentData \<Rightarrow> bool" where
  "InstrumentData_is_valid d = (OrderBook_is_valid (book d) \<and> last_price d > 0)"

definition InstrumentData_age_ms :: "time_point \<Rightarrow> InstrumentData \<Rightarrow> int" where
  "InstrumentData_age_ms now d = duration_ms (now - timestamp_inst d)"

subsection \<open>Price impact, signal, decision, configuration\<close>

record PriceImpact =
  start_price :: real
  end_price :: real
  vwap :: real
  price_drop_pct :: real
  volume_filled :: real
  volume_remaining :: real
  total_cost :: real
  levels_eaten :: int

text \<open>The value-initialised \<^verbatim>\<open>PriceImpact impact{}\<close>.\<close>

definition PriceImpact_default :: PriceImpact where
  "PriceImpact_default =
     \<lparr>start_price = 0, end_price = 0, vwap = 0, price_drop_pct = 0, volume_filled = 0,
      volume_remaining = 0, total_cost = 0, levels_eaten = 0\<rparr>"

definition PriceImpact_is_profitable :: "PriceImpact \<Rightarrow> real \<Rightarrow> real \<Rightarrow> bool" where
  "PriceImpact_is_profitable imp fees_pct safety_multiple =
     (\<bar>price_drop_pct imp\<bar> > fees_pct * safety_multiple)"

definition PriceImpact_expected_profit_pct :: "PriceImpact \<Rightarrow> real \<Rightarrow> real" where
  "PriceImpact_expected_profit_pct imp fees_pct = \<bar>price_drop_pct imp\<bar> - fees_pct"

definition PriceImpact_leveraged_return :: "PriceImpact \<Rightarrow> real \<Rightarrow> int \<Rightarrow> real" where
  "PriceImpact_leveraged_return imp fees_pct leverage =
     (let net = PriceImpact_expected_profit_pct imp fees_pct
      in if net > 0 then net * of_int leverage else 0)"

record BlockchainSignal =
  exchange_sig :: string
  is_inflow :: bool
  btc_amount :: real
  latency_ns :: int
  timestamp_sig :: time_point

text \<open>A reason string is kept as the text of the source's format (or concatenation) and
  the list of values formatted into it; the rendering of numbers as digits is not modelled.\<close>

datatype fmt_arg = ArgStr string | ArgDbl real | ArgInt int

datatype reason_text = Reason string "fmt_arg list"

record TradeDecision =
  should_trade :: bool
  is_short :: bool
  exchange :: Exchange
  entry_price :: real
  exit_price :: real
  impact :: PriceImpact
  reason :: reason_text

text \<open>The value-initialised \<^verbatim>\<open>TradeDecision decision{}\<close>; the reason is the empty string.\<close>

definition TradeDecision_default :: TradeDecision where
  "TradeDecision_default =
     \<lparr>should_trade = False, is_short = False, exchange = Exchange_COUNT, entry_price = 0,
      exit_price = 0, impact = PriceImpact_default, reason = Reason [] []\<rparr>"

definition leverage :: "TradeDecision \<Rightarrow> int" where
  "leverage d =
     (if exchange d = Exchange_COUNT then 1
      else max_leverage (get_exchange_config (exchange d)))"

definition expected_return :: "TradeDecision \<Rightarrow> real \<Rightarrow> real" where
  "expected_return d fees_pct = PriceImpact_leveraged_return (impact d) fees_pct (leverage d)"

record TradingConfig =
  min_deposit_btc :: real
  min_impact_multiple :: real
  fees_pct :: real
  take_profit_ratio :: real
  max_book_age_ms :: int

definition TradingConfig_default :: TradingConfig where
  "TradingConfig_default =
     \<lparr>min_deposit_btc = 5, min_impact_multiple = 2, fees_pct = 10 / 100,
      take_profit_ratio = 8 / 10, max_book_age_ms = 5000\<rparr>"

definition min_impact_pct :: "TradingConfig \<Rightarrow> real" where
  "min_impact_pct cfg = fees_pct cfg * min_impact_multiple cfg"

subsection \<open>Impact calculator (impact\_calculator.hpp)\<close>

text \<open>The range-\<^verbatim>\<open>for\<close> loop over the levels, which is the same text in
  \<^verbatim>\<open>calculate_sell_impact\<close> and \<^verbatim>\<open>calculate_buy_impact\<close>. The state is the local
  \<^verbatim>\<open>remaining\<close> and the result under construction.\<close>

fun eat_levels :: "PriceLevel list \<Rightarrow> real \<Rightarrow> PriceImpact \<Rightarrow> real \<times> PriceImpact" where
  "eat_levels [] remaining imp = (remaining, imp)"
| "eat_levels (level # rest) remaining imp =
     (if remaining \<le> 0 then (remaining, imp)
      else let fill = min remaining (volume level)
           in eat_levels rest (remaining - fill)
                (imp\<lparr>total_cost := total_cost imp + price level * fill,
                     volume_filled := volume_filled imp + fill,
                     end_price := price level,
                     levels_eaten := levels_eaten imp + 1\<rparr>))"

text \<open>The code after the loop, up to the percentage, which differs between the two walks.\<close>

definition finish_vwap :: "real \<times> PriceImpact \<Rightarrow> PriceImpact" where
  "finish_vwap st =
     (case st of (remaining, imp) \<Rightarrow>
        let imp1 = imp\<lparr>volume_remaining := remaining\<rparr>
        in if volume_filled imp1 > 0
           then imp1\<lparr>vwap := total_cost imp1 / volume_filled imp1\<rparr>
           else imp1\<lparr>vwap := start_price imp1\<rparr>)"

definition calculate_sell_impact :: "real \<Rightarrow> PriceLevel list \<Rightarrow> PriceImpact" where
  "calculate_sell_impact sell_btc bids_in =
     (if bids_in = [] \<or> sell_btc \<le> 0
      then PriceImpact_default\<lparr>volume_remaining := sell_btc\<rparr>
      else
        let imp0 = PriceImpact_default\<lparr>start_price := price (bids_in ! 0),
                                       end_price := price (bids_in ! 0)\<rparr>;
            imp = finish_vwap (eat_levels bids_in sell_btc imp0)
        in if start_price imp > 0
           then imp\<lparr>price_drop_pct :=
                  (start_price imp - end_price imp) / start_price imp * 100\<rparr>
           else imp)"

definition calculate_buy_impact :: "real \<Rightarrow> PriceLevel list \<Rightarrow> PriceImpact" where
  "calculate_buy_impact buy_btc asks_in =
     (if asks_in = [] \<or> buy_btc \<le> 0
      then PriceImpact_default\<lparr>volume_remaining := buy_btc\<rparr>
      else
        let imp0 = PriceImpact_default\<lparr>start_price := price (asks_in ! 0),
                                       end_price := price (asks_in ! 0)\<rparr>;
            imp = finish_vwap (eat_levels asks_in buy_btc imp0)
        in if start_price imp > 0
           then imp\<lparr>price_drop_pct :=
                  - ((end_price imp - start_price imp) / start_price imp * 100)\<rparr>
           else imp)"

definition calculate_exit_price :: "real \<Rightarrow> PriceImpact \<Rightarrow> bool \<Rightarrow> real \<Rightarrow> real" where
  "calculate_exit_price entry imp short tp_ratio =
     (if short
      then (let target_drop_pct = \<bar>price_drop_pct imp\<bar> * tp_ratio
            in entry * (1 - target_drop_pct / 100))
      else (let target_rise_pct = \<bar>price_drop_pct imp\<bar> * tp_ratio
            in entry * (1 + target_rise_pct / 100)))"

definition is_profitable :: "real \<Rightarrow> real \<Rightarrow> real \<Rightarrow> bool" where
  "is_profitable impact_pct fees safety_multiple =
     (\<bar>impact_pct\<bar> \<ge> fees * safety_multiple)"

definition expected_profit_pct :: "real \<Rightarrow> real \<Rightarrow> real" where
  "expected_profit_pct impact_pct fees = \<bar>impact_pct\<bar> - fees"

definition leveraged_return :: "real \<Rightarrow> real \<Rightarrow> int \<Rightarrow> real" where
  "leveraged_return impact_pct fees lev =
     (let net_profit = expected_profit_pct impact_pct fees
      in if net_profit > 0 then net_profit * of_int lev else 0)"

subsection \<open>OrderBookCache (order\_book\_cache.hpp)\<close>

text \<open>The two \<^verbatim>\<open>std::array\<close>s of size \<^verbatim>\<open>Exchange::COUNT\<close> are functions on the index; every
  modelled method checks \<^verbatim>\<open>idx >= COUNT\<close> before it touches them.\<close>

record OrderBookCache =
  books :: "nat \<Rightarrow> OrderBook"
  sequence_counters :: "nat \<Rightarrow> 64 word"

definition OrderBookCache_new :: OrderBookCache where
  "OrderBookCache_new = \<lparr>books = (\<lambda>_. OrderBook_default), sequence_counters = (\<lambda>_. 0)\<rparr>"

definition OrderBookCache_get :: "OrderBookCache \<Rightarrow> Exchange \<Rightarrow> OrderBook" where
  "OrderBookCache_get c ex =
     (if ex \<ge> Exchange_COUNT then OrderBook_default else books c ex)"

definition OrderBookCache_is_stale :: "OrderBookCache \<Rightarrow> time_point \<Rightarrow> Exchange \<Rightarrow> int \<Rightarrow> bool" where
  "OrderBookCache_is_stale c now ex max_age_ms =
     (if ex \<ge> Exchange_COUNT then True
      else OrderBook_age_ms now (books c ex) > max_age_ms)"

definition OrderBookCache_is_valid :: "OrderBookCache \<Rightarrow> Exchange \<Rightarrow> bool" where
  "OrderBookCache_is_valid c ex =
     (if ex \<ge> Exchange_COUNT then False else OrderBook_is_valid (books c ex))"

definition OrderBookCache_get_sequence :: "OrderBookCache \<Rightarrow> Exchange \<Rightarrow> 64 word" where
  "OrderBookCache_get_sequence c ex =
     (if ex \<ge> Exchange_COUNT then 0 else sequence_counters c ex)"

definition OrderBookCache_update ::
  "OrderBookCache \<Rightarrow> time_point \<Rightarrow> Exchange \<Rightarrow> OrderBook \<Rightarrow> OrderBookCache" where
  "OrderBookCache_update c now ex book_in =
     (if ex \<ge> Exchange_COUNT then c
      else
        let book1 = book_in\<lparr>timestamp := now\<rparr>;
            new_seq = sequence_counters c ex + 1
        in c\<lparr>sequence_counters := (sequence_counters c)(ex := new_seq),
             books := (books c)(ex := book1\<lparr>sequence := new_seq\<rparr>)\<rparr>)"

definition OrderBookCache_update_bids ::
  "OrderBookCache \<Rightarrow> time_point \<Rightarrow> Exchange \<Rightarrow> PriceLevel list \<Rightarrow> OrderBookCache" where
  "OrderBookCache_update_bids c now ex bids_in =
     (if ex \<ge> Exchange_COUNT then c
      else
        c\<lparr>books := (books c)(ex := (books c ex)
               \<lparr>bids := bids_in, timestamp := now, sequence := sequence_counters c ex + 1\<rparr>),
          sequence_counters := (sequence_counters c)(ex := sequence_counters c ex + 1)\<rparr>)"

definition OrderBookCache_update_asks ::
  "OrderBookCache \<Rightarrow> time_point \<Rightarrow> Exchange \<Rightarrow> PriceLevel list \<Rightarrow> OrderBookCache" where
  "OrderBookCache_update_asks c now ex asks_in =
     (if ex \<ge> Exchange_COUNT then c
      else
        c\<lparr>books := (books c)(ex := (books c ex)
               \<lparr>asks := asks_in, timestamp := now, sequence := sequence_counters c ex + 1\<rparr>),
          sequence_counters := (sequence_counters c)(ex := sequence_counters c ex + 1)\<rparr>)"

definition OrderBookCache_clear :: "OrderBookCache \<Rightarrow> Exchange \<Rightarrow> OrderBookCache" where
  "OrderBookCache_clear c ex =
     (if ex \<ge> Exchange_COUNT then c
      else
        c\<lparr>books := (books c)(ex := (OrderBook_clear (books c ex))
               \<lparr>sequence := sequence_counters c ex + 1\<rparr>),
          sequence_counters := (sequence_counters c)(ex := sequence_counters c ex + 1)\<rparr>)"

text \<open>The loop of \<^verbatim>\<open>clear_all\<close> runs the body of \<^verbatim>\<open>clear\<close> for \<open>i = 0, \<dots>, COUNT - 1\<close>.\<close>

definition OrderBookCache_clear_all :: "OrderBookCache \<Rightarrow> OrderBookCache" where
  "OrderBookCache_clear_all c = fold (\<lambda>i c'. OrderBookCache_clear c' i) [0..<Exchange_COUNT] c"

subsection \<open>InstrumentCache (order\_book\_cache.hpp)\<close>

record InstrumentCache =
  cache :: "nat \<rightharpoonup> InstrumentData"
  global_sequence :: "64 word"

definition InstrumentCache_new :: InstrumentCache where
  "InstrumentCache_new = \<lparr>cache = Map.empty, global_sequence = 0\<rparr>"

definition make_key :: "Exchange \<Rightarrow> InstrumentType \<Rightarrow> nat" where
  "make_key ex t = ex * InstrumentType_index INST_COUNT + InstrumentType_index t"

definition InstrumentCache_get :: "InstrumentCache \<Rightarrow> Exchange \<Rightarrow> InstrumentType \<Rightarrow> InstrumentData" where
  "InstrumentCache_get c ex t =
     (case cache c (make_key ex t) of Some d \<Rightarrow> d | None \<Rightarrow> InstrumentData_default)"

definition InstrumentCache_get_book :: "InstrumentCache \<Rightarrow> Exchange \<Rightarrow> InstrumentType \<Rightarrow> OrderBook" where
  "InstrumentCache_get_book c ex t =
     (case cache c (make_key ex t) of Some d \<Rightarrow> book d | None \<Rightarrow> OrderBook_default)"

definition InstrumentCache_is_stale ::
  "InstrumentCache \<Rightarrow> time_point \<Rightarrow> Exchange \<Rightarrow> InstrumentType \<Rightarrow> int \<Rightarrow> bool" where
  "InstrumentCache_is_stale c now ex t max_age_ms =
     (case cache c (make_key ex t) of
        None \<Rightarrow> True
      | Some d \<Rightarrow> InstrumentData_age_ms now d > max_age_ms)"

definition InstrumentCache_is_fresh ::
  "InstrumentCache \<Rightarrow> time_point \<Rightarrow> Exchange \<Rightarrow> InstrumentType \<Rightarrow> int \<Rightarrow> bool" where
  "InstrumentCache_is_fresh c now ex t max_age_ms =
     (case cache c (make_key ex t) of
        None \<Rightarrow> False
      | Some d \<Rightarrow> InstrumentData_is_valid d \<and> InstrumentData_age_ms now d \<le> max_age_ms)"

definition InstrumentCache_get_sequence :: "InstrumentCache \<Rightarrow> Exchange \<Rightarrow> InstrumentType \<Rightarrow> 64 word" where
  "InstrumentCache_get_sequence c ex t =
     (case cache c (make_key ex t) of Some d \<Rightarrow> sequence_inst d | None \<Rightarrow> 0)"

text \<open>\<^verbatim>\<open>cache_m[key]\<close> of \<^verbatim>\<open>std::unordered_map\<close>: a missing key is inserted with a
  default-constructed value.\<close>

definition entry_or_default :: "InstrumentCache \<Rightarrow> nat \<Rightarrow> InstrumentData" where
  "entry_or_default c key =
     (case cache c key of Some d \<Rightarrow> d | None \<Rightarrow> InstrumentData_default)"

definition InstrumentCache_update ::
  "InstrumentCache \<Rightarrow> time_point \<Rightarrow> Exchange \<Rightarrow> InstrumentType \<Rightarrow> InstrumentData \<Rightarrow> InstrumentCache" where
  "InstrumentCache_update c now ex t data_in =
     (let data1 = data_in\<lparr>type_inst := t, timestamp_inst := now\<rparr>;
          key = make_key ex t;
          seq = global_sequence c + 1
      in c\<lparr>global_sequence := seq,
           cache := (cache c)(key \<mapsto> data1\<lparr>sequence_inst := seq\<rparr>)\<rparr>)"

definition InstrumentCache_update_book ::
  "InstrumentCache \<Rightarrow> time_point \<Rightarrow> Exchange \<Rightarrow> InstrumentType \<Rightarrow> OrderBook \<Rightarrow> InstrumentCache" where
  "InstrumentCache_update_book c now ex t book_in =
     (let key = make_key ex t;
          data0 = entry_or_default c key;
          book1 = book_in\<lparr>timestamp := now\<rparr>;
          seq = global_sequence c + 1
      in c\<lparr>global_sequence := seq,
           cache := (cache c)(key \<mapsto> data0
             \<lparr>type_inst := t, book := book1, timestamp_inst := timestamp book1,
              last_price := mid_price book1, sequence_inst := seq\<rparr>)\<rparr>)"

definition InstrumentCache_update_funding ::
  "InstrumentCache \<Rightarrow> time_point \<Rightarrow> Exchange \<Rightarrow> InstrumentType \<Rightarrow> real \<Rightarrow> int \<Rightarrow> InstrumentCache" where
  "InstrumentCache_update_funding c now ex t rate next_ts =
     (let key = make_key ex t;
          data0 = entry_or_default c key;
          seq = global_sequence c + 1
      in c\<lparr>global_sequence := seq,
           cache := (cache c)(key \<mapsto> data0
             \<lparr>type_inst := t, funding_rate := rate, next_funding_ts := next_ts,
              timestamp_inst := now, sequence_inst := seq\<rparr>)\<rparr>)"

definition InstrumentCache_update_mark_price ::
  "InstrumentCache \<Rightarrow> time_point \<Rightarrow> Exchange \<Rightarrow> InstrumentType \<Rightarrow> real \<Rightarrow> real \<Rightarrow> InstrumentCache" where
  "InstrumentCache_update_mark_price c now ex t mark idx_price =
     (let key = make_key ex t;
          data0 = entry_or_default c key;
          data1 = data0\<lparr>type_inst := t, mark_price := mark\<rparr>;
          data2 = (if idx_price > 0 then data1\<lparr>index_price := idx_price\<rparr> else data1);
          seq = global_sequence c + 1
      in c\<lparr>global_sequence := seq,
           cache := (cache c)(key \<mapsto> data2\<lparr>timestamp_inst := now, sequence_inst := seq\<rparr>)\<rparr>)"

definition InstrumentCache_update_greeks ::
  "InstrumentCache \<Rightarrow> time_point \<Rightarrow> Exchange \<Rightarrow> real \<Rightarrow> bool \<Rightarrow> real \<Rightarrow> real \<Rightarrow> real \<Rightarrow> real
     \<Rightarrow> real \<Rightarrow> InstrumentCache" where
  "InstrumentCache_update_greeks c now ex strike_in is_call_in delta_in gamma_in theta_in vega_in iv =
     (let key = make_key ex OPTIONS;
          data0 = entry_or_default c key;
          data1 = data0\<lparr>type_inst := OPTIONS, strike := strike_in, is_call := is_call_in,
                        delta := delta_in, gamma := gamma_in, theta := theta_in,
                        vega := vega_in\<rparr>;
          data2 = (if iv > 0 then data1\<lparr>implied_vol := iv\<rparr> else data1);
          seq = global_sequence c + 1
      in c\<lparr>global_sequence := seq,
           cache := (cache c)(key \<mapsto> data2\<lparr>timestamp_inst := now, sequence_inst := seq\<rparr>)\<rparr>)"

text \<open>One iteration of the loop of \<^verbatim>\<open>update_batch\<close>; the key comes from the type the
  element carries.\<close>

definition update_batch_step ::
  "time_point \<Rightarrow> Exchange \<Rightarrow> InstrumentData \<Rightarrow> InstrumentCache \<Rightarrow> InstrumentCache" where
  "update_batch_step now ex data_in c =
     (let seq = global_sequence c + 1;
          data1 = data_in\<lparr>timestamp_inst := now, sequence_inst := seq\<rparr>;
          key = make_key ex (type_inst data1)
      in c\<lparr>global_sequence := seq, cache := (cache c)(key \<mapsto> data1)\<rparr>)"

definition InstrumentCache_update_batch ::
  "InstrumentCache \<Rightarrow> time_point \<Rightarrow> Exchange \<Rightarrow> InstrumentData list \<Rightarrow> InstrumentCache" where
  "InstrumentCache_update_batch c now ex instruments = fold (update_batch_step now ex) instruments c"

definition InstrumentCache_clear :: "InstrumentCache \<Rightarrow> Exchange \<Rightarrow> InstrumentType \<Rightarrow> InstrumentCache" where
  "InstrumentCache_clear c ex t = c\<lparr>cache := (cache c)(make_key ex t := None)\<rparr>"

definition InstrumentCache_clear_exchange :: "InstrumentCache \<Rightarrow> Exchange \<Rightarrow> InstrumentCache" where
  "InstrumentCache_clear_exchange c ex =
     fold (\<lambda>i c'. c'\<lparr>cache := (cache c')(ex * InstrumentType_index INST_COUNT + i := None)\<rparr>)
       [0..<InstrumentType_index INST_COUNT] c"

definition InstrumentCache_clear_all :: "InstrumentCache \<Rightarrow> InstrumentCache" where
  "InstrumentCache_clear_all c = c\<lparr>cache := Map.empty\<rparr>"

subsection \<open>SignalHandler (signal\_handler.hpp)\<close>

text \<open>The handler's members \<^verbatim>\<open>cache_\<close> and \<^verbatim>\<open>config_\<close> (here \<open>cache_m\<close>, \<open>config_m\<close>)
  and the clock reading are arguments. The local \<^verbatim>\<open>fees_pct\<close> of \<^verbatim>\<open>process_signal\<close> is bound as in the source.\<close>

definition process_signal ::
  "OrderBookCache \<Rightarrow> TradingConfig \<Rightarrow> time_point \<Rightarrow> BlockchainSignal \<Rightarrow> TradeDecision" where
  "process_signal cache_m config_m now signal =
     (let decision0 = TradeDecision_default\<lparr>is_short := is_inflow signal\<rparr>;
          ex = exchange_from_name (exchange_sig signal)
      in if ex = Exchange_COUNT
         then decision0\<lparr>reason := Reason ''Unknown exchange: %s'' [ArgStr (exchange_sig signal)]\<rparr>
         else
           let decision1 = decision0\<lparr>exchange := ex\<rparr>
           in if btc_amount signal < min_deposit_btc config_m
              then decision1\<lparr>reason := Reason ''Deposit too small: %f BTC < %f BTC required''
                     [ArgDbl (btc_amount signal), ArgDbl (min_deposit_btc config_m)]\<rparr>
              else if OrderBookCache_is_stale cache_m now ex (max_book_age_ms config_m)
              then decision1\<lparr>reason := Reason ''Order book stale (>%dms old)''
                     [ArgInt (max_book_age_ms config_m)]\<rparr>
              else if \<not> OrderBookCache_is_valid cache_m ex
              then decision1\<lparr>reason := Reason ''Order book not available'' []\<rparr>
              else
                let bk = OrderBookCache_get cache_m ex;
                    fees0 = fee_pct (get_config ex) * 100;
                    fees_pct_local = (if fees0 < 1 / 100 then fees_pct config_m else fees0);
                    decision2 =
                      (if is_inflow signal
                       then decision1\<lparr>impact := calculate_sell_impact (btc_amount signal) (bids bk),
                                      entry_price := best_bid bk\<rparr>
                       else decision1\<lparr>impact := calculate_buy_impact (btc_amount signal) (asks bk),
                                      entry_price := best_ask bk\<rparr>);
                    min_required = min_impact_pct config_m
                in if \<bar>price_drop_pct (impact decision2)\<bar> < min_required
                   then decision2\<lparr>reason := Reason ''Impact %.4f%% < required %.4f%% (2x fees)''
                          [ArgDbl \<bar>price_drop_pct (impact decision2)\<bar>, ArgDbl min_required]\<rparr>
                   else if volume_remaining (impact decision2) > 0
                   then decision2\<lparr>reason := Reason ''Insufficient depth: only %.2f of %.2f BTC fillable''
                          [ArgDbl (volume_filled (impact decision2)), ArgDbl (btc_amount signal)]\<rparr>
                   else
                     let decision3 = decision2\<lparr>exit_price :=
                           calculate_exit_price (entry_price decision2) (impact decision2)
                             (is_short decision2) (take_profit_ratio config_m)\<rparr>;
                         decision4 = decision3\<lparr>should_trade := True\<rparr>
                     in decision4\<lparr>reason := Reason ''TRADE: Impact %.4f%% > %.4f%% | Expected +%.2f%%''
                          [ArgDbl \<bar>price_drop_pct (impact decision4)\<bar>, ArgDbl min_required,
                           ArgDbl (expected_return decision4 (fees_pct config_m))]\<rparr>)"

text \<open>The \<^verbatim>\<open>switch\<close> over the instrument type of \<^verbatim>\<open>process_instrument_signal\<close>, as a
  function from the locals (\<^verbatim>\<open>adjusted_impact\<close>, \<^verbatim>\<open>adjusted_fees\<close>) before it to the locals
  after it. The quotient in the \<^verbatim>\<open>FUTURES\<close> case is the only division the source does not
  guard; for \<^verbatim>\<open>entry_price = 0\<close> the model's value \<open>0\<close> is not the IEEE result.\<close>

fun instrument_adjust ::
  "InstrumentType \<Rightarrow> InstrumentData \<Rightarrow> TradeDecision \<Rightarrow> real \<times> real \<Rightarrow> real \<times> real" where
  "instrument_adjust SPOT inst_data decision (adjusted_impact, adjusted_fees) =
     (adjusted_impact, adjusted_fees)"
| "instrument_adjust MARGIN inst_data decision (adjusted_impact, adjusted_fees) =
     (adjusted_impact, adjusted_fees + \<bar>interest_rate_long inst_data\<bar> * 4)"
| "instrument_adjust PERPETUAL inst_data decision (adjusted_impact, adjusted_fees) =
     (adjusted_impact, adjusted_fees + \<bar>funding_rate inst_data\<bar> * 100)"
| "instrument_adjust FUTURES inst_data decision (adjusted_impact, adjusted_fees) =
     (if \<not> is_short decision \<and> basis inst_data < 0
      then (adjusted_impact + \<bar>basis inst_data / entry_price decision * 100\<bar>, adjusted_fees)
      else if is_short decision \<and> basis inst_data > 0
      then (adjusted_impact + \<bar>basis inst_data / entry_price decision * 100\<bar>, adjusted_fees)
      else (adjusted_impact, adjusted_fees))"
| "instrument_adjust OPTIONS inst_data decision (adjusted_impact, adjusted_fees) =
     ((if \<bar>delta inst_data\<bar> > 1 / 100 then adjusted_impact * \<bar>delta inst_data\<bar>
       else adjusted_impact),
      adjusted_fees + \<bar>theta inst_data\<bar> / 24)"
| "instrument_adjust INVERSE inst_data decision (adjusted_impact, adjusted_fees) =
     ((if adjusted_impact > 1 then adjusted_impact * (15 / 10) else adjusted_impact),
      adjusted_fees + \<bar>funding_rate inst_data\<bar> * 100)"
| "instrument_adjust LEVERAGED_TOKEN inst_data decision (adjusted_impact, adjusted_fees) =
     (adjusted_impact * target_leverage inst_data, adjusted_fees)"
| "instrument_adjust INST_COUNT inst_data decision (adjusted_impact, adjusted_fees) =
     (adjusted_impact, adjusted_fees)"

definition process_instrument_signal ::
  "TradingConfig \<Rightarrow> time_point \<Rightarrow> BlockchainSignal \<Rightarrow> InstrumentType \<Rightarrow> InstrumentData
     \<Rightarrow> TradeDecision" where
  "process_instrument_signal config_m now signal inst_type inst_data =
     (let decision0 = TradeDecision_default\<lparr>is_short := is_inflow signal\<rparr>;
          ex = exchange_from_name (exchange_sig signal)
      in if ex = Exchange_COUNT
         then decision0\<lparr>reason := Reason ''Unknown exchange'' []\<rparr>
         else
           let decision1 = decision0\<lparr>exchange := ex\<rparr>
           in if btc_amount signal < min_deposit_btc config_m
              then decision1\<lparr>reason := Reason ''Deposit too small'' []\<rparr>
              else if \<not> OrderBook_is_valid (book inst_data)
              then decision1\<lparr>reason := Reason ''Order book not available'' []\<rparr>
              else if InstrumentData_age_ms now inst_data > max_book_age_ms config_m
              then decision1\<lparr>reason := Reason ''Order book stale'' []\<rparr>
              else
                let fees0 = fee_pct (get_exchange_config ex) * 100;
                    base_fees_pct = (if fees0 < 1 / 100 then fees_pct config_m else fees0);
                    decision2 =
                      (if is_inflow signal
                       then decision1\<lparr>impact := calculate_sell_impact (btc_amount signal)
                                                  (bids (book inst_data)),
                                      entry_price := best_bid (book inst_data)\<rparr>
                       else decision1\<lparr>impact := calculate_buy_impact (btc_amount signal)
                                                  (asks (book inst_data)),
                                      entry_price := best_ask (book inst_data)\<rparr>)
                in if volume_remaining (impact decision2) > 0
                   then decision2\<lparr>reason := Reason ''Insufficient depth'' []\<rparr>
                   else
                     (case instrument_adjust inst_type inst_data decision2
                             (\<bar>price_drop_pct (impact decision2)\<bar>, base_fees_pct) of
                        (adjusted_impact, adjusted_fees) \<Rightarrow>
                          let inst_name = instrument_name inst_type;
                              min_required = adjusted_fees * min_impact_multiple config_m
                          in if adjusted_impact < min_required
                             then decision2\<lparr>reason :=
                                    Reason ''[%s] Impact %.4f%% < required %.4f%% (2x fees)''
                                      [ArgStr inst_name, ArgDbl adjusted_impact, ArgDbl min_required]\<rparr>
                             else decision2
                                    \<lparr>should_trade := True,
                                     exit_price := calculate_exit_price (entry_price decision2)
                                        (impact decision2) (is_short decision2)
                                        (take_profit_ratio config_m),
                                     reason :=
                                       Reason ''[%s] TRADE: Impact %.4f%% > %.4f%% | Profit: +%.2f%%''
                                         [ArgStr inst_name, ArgDbl adjusted_impact, ArgDbl min_required,
                                          ArgDbl (adjusted_impact - adjusted_fees)]\<rparr>))"

subsection \<open>The walk as the specification describes it\<close>






subsection \<open>Book invariants of the data model\<close>




subsection \<open>Cache writes as operations\<close>

text \<open>The writing methods of the two caches as values, so that properties can be stated
  for every write and for sequences of writes. Each operation that reads the clock
  carries the reading.\<close>

datatype OrderBookCache_op =
    OB_update time_point Exchange OrderBook
  | OB_update_bids time_point Exchange "PriceLevel list"
  | OB_update_asks time_point Exchange "PriceLevel list"
  | OB_clear Exchange
  | OB_clear_all

fun OrderBookCache_apply :: "OrderBookCache_op \<Rightarrow> OrderBookCache \<Rightarrow> OrderBookCache" where
  "OrderBookCache_apply (OB_update now ex b) c = OrderBookCache_update c now ex b"
| "OrderBookCache_apply (OB_update_bids now ex bs) c = OrderBookCache_update_bids c now ex bs"
| "OrderBookCache_apply (OB_update_asks now ex as) c = OrderBookCache_update_asks c now ex as"
| "OrderBookCache_apply (OB_clear ex) c = OrderBookCache_clear c ex"
| "OrderBookCache_apply OB_clear_all c = OrderBookCache_clear_all c"

text \<open>Whether an operation writes the entry of venue \<open>ex\<close>.\<close>

fun OB_writes :: "OrderBookCache_op \<Rightarrow> Exchange \<Rightarrow> bool" where
  "OB_writes (OB_update now ex' b) ex = (ex' = ex \<and> ex < Exchange_COUNT)"
| "OB_writes (OB_update_bids now ex' bs) ex = (ex' = ex \<and> ex < Exchange_COUNT)"
| "OB_writes (OB_update_asks now ex' as) ex = (ex' = ex \<and> ex < Exchange_COUNT)"
| "OB_writes (OB_clear ex') ex = (ex' = ex \<and> ex < Exchange_COUNT)"
| "OB_writes OB_clear_all ex = (ex < Exchange_COUNT)"

datatype InstrumentCache_op =
    IC_update time_point Exchange InstrumentType InstrumentData
  | IC_update_book time_point Exchange InstrumentType OrderBook
  | IC_update_funding time_point Exchange InstrumentType real int
  | IC_update_mark_price time_point Exchange InstrumentType real real
  | IC_update_greeks time_point Exchange real bool real real real real real
  | IC_update_batch time_point Exchange "InstrumentData list"

fun InstrumentCache_apply :: "InstrumentCache_op \<Rightarrow> InstrumentCache \<Rightarrow> InstrumentCache" where
  "InstrumentCache_apply (IC_update now ex t d) c = InstrumentCache_update c now ex t d"
| "InstrumentCache_apply (IC_update_book now ex t b) c = InstrumentCache_update_book c now ex t b"
| "InstrumentCache_apply (IC_update_funding now ex t r ts) c =
     InstrumentCache_update_funding c now ex t r ts"
| "InstrumentCache_apply (IC_update_mark_price now ex t m i) c =
     InstrumentCache_update_mark_price c now ex t m i"
| "InstrumentCache_apply (IC_update_greeks now ex k cl d g th v iv) c =
     InstrumentCache_update_greeks c now ex k cl d g th v iv"
| "InstrumentCache_apply (IC_update_batch now ex ds) c = InstrumentCache_update_batch c now ex ds"

text \<open>The flat keys an operation stores under, and how many times it increments the
  counter.\<close>

fun IC_keys :: "InstrumentCache_op \<Rightarrow> nat list" where
  "IC_keys (IC_update now ex t d) = [make_key ex t]"
| "IC_keys (IC_update_book now ex t b) = [make_key ex t]"
| "IC_keys (IC_update_funding now ex t r ts) = [make_key ex t]"
| "IC_keys (IC_update_mark_price now ex t m i) = [make_key ex t]"
| "IC_keys (IC_update_greeks now ex k cl d g th v iv) = [make_key ex OPTIONS]"
| "IC_keys (IC_update_batch now ex ds) = map (\<lambda>d. make_key ex (type_inst d)) ds"

fun is_batch :: "InstrumentCache_op \<Rightarrow> bool" where
  "is_batch (IC_update_batch now ex ds) = True"
| "is_batch _ = False"

text \<open>The sequence stored under a flat key, \<open>0\<close> when the key is absent: what
  \<^verbatim>\<open>get_sequence\<close> returns for a pair with that key.\<close>

definition stored_sequence :: "InstrumentCache \<Rightarrow> nat \<Rightarrow> 64 word" where
  "stored_sequence c key = (case cache c key of Some d \<Rightarrow> sequence_inst d | None \<Rightarrow> 0)"

text \<open>No stored entry carries a sequence above the counter. It holds of the empty cache and
  every operation keeps it while the counter does not wrap.\<close>

definition sequences_bounded :: "InstrumentCache \<Rightarrow> bool" where
  "sequences_bounded c = (\<forall>key. stored_sequence c key \<le> global_sequence c)"

subsection \<open>Scenario data\<close>

text \<open>The bid ladder of the first end-to-end scenario, with the ask of the repository's
  signal-handler test, stored for \<^verbatim>\<open>binance\<close> (taker fee \<open>0.001\<close>, that is \<open>0.10%\<close>).\<close>

definition ladder_bids :: "PriceLevel list" where
  "ladder_bids =
     [\<lparr>price = 87000, volume = 10\<rparr>, \<lparr>price = 86950, volume = 15\<rparr>,
      \<lparr>price = 86900, volume = 20\<rparr>, \<lparr>price = 86850, volume = 25\<rparr>]"

definition ladder_book :: OrderBook where
  "ladder_book = \<lparr>bids = ladder_bids, asks = [\<lparr>price = 87010, volume = 1\<rparr>],
                  timestamp = 0, sequence = 0\<rparr>"

definition inflow_signal :: "string \<Rightarrow> real \<Rightarrow> BlockchainSignal" where
  "inflow_signal name qty =
     \<lparr>exchange_sig = name, is_inflow = True, btc_amount = qty, latency_ns = 0,
      timestamp_sig = 0\<rparr>"

text \<open>A two-level book whose second bid is \<open>0.5%\<close> below the first, stored for
  \<^verbatim>\<open>gemini\<close> (taker fee \<open>0.004\<close>, that is \<open>0.40%\<close>).\<close>

definition half_percent_book :: OrderBook where
  "half_percent_book =
     \<lparr>bids = [\<lparr>price = 1000, volume = 1\<rparr>, \<lparr>price = 995, volume = 10\<rparr>],
      asks = [\<lparr>price = 1001, volume = 1\<rparr>], timestamp = 0, sequence = 0\<rparr>"



text \<open>The cache after one \<^verbatim>\<open>update\<close> at clock reading \<open>0\<close>.\<close>

definition ladder_cache :: OrderBookCache where
  "ladder_cache = OrderBookCache_update OrderBookCache_new 0 BINANCE ladder_book"

definition half_percent_cache :: OrderBookCache where
  "half_percent_cache = OrderBookCache_update OrderBookCache_new 0 GEMINI half_percent_book"

text \<open>Six seconds after the epoch of the clock, in nanosecond ticks.\<close>

definition six_seconds :: time_point where
  "six_seconds = 6000000000"

text \<open>Three \<^verbatim>\<open>InstrumentCache::update\<close> calls with the same data: two for the key
  (\<^verbatim>\<open>GEMINI\<close>, \<^verbatim>\<open>SPOT\<close>) and, between them, one for (\<^verbatim>\<open>GEMINI\<close>, \<^verbatim>\<open>PERPETUAL\<close>).\<close>

definition one_update :: InstrumentCache where
  "one_update = InstrumentCache_update InstrumentCache_new 0 GEMINI SPOT InstrumentData_default"

definition two_updates :: InstrumentCache where
  "two_updates = InstrumentCache_update one_update 0 GEMINI PERPETUAL InstrumentData_default"

definition three_updates :: InstrumentCache where
  "three_updates = InstrumentCache_update two_updates 0 GEMINI SPOT InstrumentData_default"

text \<open>The \<^verbatim>\<open>InstrumentData\<close> whose every field is zero (\<^verbatim>\<open>SPOT\<close> is the enumerator \<open>0\<close>,
  \<open>False\<close> the zero of \<^verbatim>\<open>bool\<close>), for comparison with the default-constructed value.\<close>

definition InstrumentData_zero :: InstrumentData where
  "InstrumentData_zero =
     \<lparr>type_inst = SPOT, book = OrderBook_default, last_price = 0, volume_24h = 0,
      timestamp_inst = 0, sequence_inst = 0, mark_price = 0, index_price = 0,
      funding_rate = 0, next_funding_ts = 0, predicted_funding = 0,
      expiration_ts = 0, basis = 0, basis_rate = 0,
      strike = 0, implied_vol = 0, is_call = False, delta = 0, gamma = 0, theta = 0,
      vega = 0, rho = 0, underlying_price = 0, time_to_expiry = 0,
      interest_rate_long = 0, interest_rate_short = 0, max_leverage_inst = 0,
      maintenance_margin = 0, contract_size = 0, contract_value = 0,
      nav = 0, real_leverage = 0, target_leverage = 0, rebalance_ts = 0, basket = 0\<rparr>"

section \<open>Properties\<close>

subsection \<open>Exchange names\<close>

lemma EXCHANGE_NAMES_length: "length EXCHANGE_NAMES = Exchange_COUNT"
  by (simp add: EXCHANGE_NAMES_def Exchange_COUNT_def)

lemma EXCHANGE_NAMES_distinct: "distinct EXCHANGE_NAMES"
  by (simp add: EXCHANGE_NAMES_def)

lemma Exchange_enumerators_aligned:
  "map (map ascii_lower) Exchange_enumerators = EXCHANGE_NAMES"
  by (simp add: EXCHANGE_NAMES_def Exchange_enumerators_def ascii_lower_def)

text \<open>The loop returns the first index at or after \<open>i\<close> whose entry is the name.\<close>

lemma exchange_from_name_loop_found:
  assumes "i \<le> j" and "j < Exchange_COUNT" and "EXCHANGE_NAMES ! j = name"
    and "\<forall>k. i \<le> k \<and> k < j \<longrightarrow> EXCHANGE_NAMES ! k \<noteq> name"
  shows "exchange_from_name_loop i name = j"
  using assms
proof (induction i name rule: exchange_from_name_loop.induct)
  case (1 i name)
  show ?case
  proof (cases "i = j")
    case True
    with 1 show ?thesis by simp
  next
    case False
    with 1 have lt: "i < j" by simp
    with 1 have ne: "name \<noteq> EXCHANGE_NAMES ! i" by auto
    have iC: "i < Exchange_COUNT" using lt 1 by simp
    have "exchange_from_name_loop (Suc i) name = j"
      using 1 lt ne iC by (intro "1.IH") auto
    with ne iC show ?thesis by simp
  qed
qed

lemma exchange_from_name_loop_missing:
  assumes "\<forall>k. i \<le> k \<and> k < Exchange_COUNT \<longrightarrow> EXCHANGE_NAMES ! k \<noteq> name"
  shows "exchange_from_name_loop i name = Exchange_COUNT"
  using assms
proof (induction i name rule: exchange_from_name_loop.induct)
  case (1 i name)
  show ?case
  proof (cases "i < Exchange_COUNT")
    case True
    with 1 have ne: "name \<noteq> EXCHANGE_NAMES ! i" by auto
    have "exchange_from_name_loop (Suc i) name = Exchange_COUNT"
      using 1 True ne by (intro "1.IH") auto
    with True ne show ?thesis by simp
  next
    case False
    then show ?thesis by simp
  qed
qed

lemma exchange_from_name_of_name:
  assumes "e < Exchange_COUNT"
  shows "exchange_from_name (exchange_name e) = e"
proof -
  have "\<forall>k. 0 \<le> k \<and> k < e \<longrightarrow> EXCHANGE_NAMES ! k \<noteq> EXCHANGE_NAMES ! e"
    using assms EXCHANGE_NAMES_distinct EXCHANGE_NAMES_length
    by (auto simp: nth_eq_iff_index_eq)
  then have "exchange_from_name_loop 0 (EXCHANGE_NAMES ! e) = e"
    using assms by (intro exchange_from_name_loop_found) auto
  then show ?thesis
    using assms by (simp add: exchange_from_name_def exchange_name_def)
qed

lemma exchange_from_name_unknown:
  assumes "name \<notin> set EXCHANGE_NAMES"
  shows "exchange_from_name name = Exchange_COUNT"
proof -
  have "\<forall>k. 0 \<le> k \<and> k < Exchange_COUNT \<longrightarrow> EXCHANGE_NAMES ! k \<noteq> name"
    using assms EXCHANGE_NAMES_length by (metis nth_mem)
  then show ?thesis
    unfolding exchange_from_name_def by (rule exchange_from_name_loop_missing)
qed

text \<open>
  C10. For every exchange \<open>e\<close> other than the sentinel (that is, every enumerator value
  below \<open>COUNT\<close>), looking up the name of \<open>e\<close> gives \<open>e\<close> back; a string that is not
  an entry of the table is mapped to the sentinel \<open>COUNT\<close>. The table has 110 pairwise
  different entries, and entry \<open>i\<close> is the lower-cased identifier of enumerator \<open>i\<close>.
\<close>

theorem exchange_name_roundtrip:
  "(e < Exchange_COUNT \<longrightarrow> exchange_from_name (exchange_name e) = e) \<and>
   (name \<notin> set EXCHANGE_NAMES \<longrightarrow> exchange_from_name name = Exchange_COUNT) \<and>
   length EXCHANGE_NAMES = 110 \<and> distinct EXCHANGE_NAMES \<and>
   map (map ascii_lower) Exchange_enumerators = EXCHANGE_NAMES"
  using exchange_from_name_of_name exchange_from_name_unknown EXCHANGE_NAMES_length
    EXCHANGE_NAMES_distinct Exchange_enumerators_aligned
  by (simp add: Exchange_COUNT_def)

theorem exchange_name_roundtrip_witness:
  "GEMINI < Exchange_COUNT \<and> exchange_from_name (exchange_name GEMINI) = GEMINI \<and>
   exchange_name GEMINI = ''gemini'' \<and>
   ''Gemini'' \<notin> set EXCHANGE_NAMES \<and> exchange_from_name ''Gemini'' = Exchange_COUNT"
proof -
  have a: "GEMINI < Exchange_COUNT" by (simp add: GEMINI_def Exchange_COUNT_def)
  have b: "''Gemini'' \<notin> set EXCHANGE_NAMES" by (simp add: EXCHANGE_NAMES_def)
  have c: "exchange_name GEMINI = ''gemini''"
    by (simp add: exchange_name_def GEMINI_def Exchange_COUNT_def EXCHANGE_NAMES_def)
  show ?thesis
    using a b c exchange_name_roundtrip [of GEMINI "''Gemini''"] by simp
qed

subsection \<open>The walk and its reference\<close>









subsection \<open>Invariants of the walk\<close>
















subsection \<open>Profitability helpers\<close>

text \<open>
  C6. The free helper \<open>is_profitable\<close> holds exactly when \<open>\<bar>impact\<bar> \<ge> fees \<cdot> safety\<close>,
  equality included. The member function of \<open>PriceImpact\<close> compares with \<open>>\<close>: at
  \<open>impact = 1\<close>, \<open>fees = 0.5\<close>, \<open>safety = 2\<close> the helper answers true and the member false.
\<close>

theorem is_profitable_member_strict:
  "(is_profitable i f s \<longleftrightarrow> \<bar>i\<bar> \<ge> f * s) \<and>
   (PriceImpact_is_profitable imp f s \<longleftrightarrow> \<bar>price_drop_pct imp\<bar> > f * s) \<and>
   is_profitable 1 (1 / 2) 2 \<and>
   \<not> PriceImpact_is_profitable (PriceImpact_default\<lparr>price_drop_pct := 1\<rparr>) (1 / 2) 2"
  by (simp add: is_profitable_def PriceImpact_is_profitable_def)

subsection \<open>Signal handler: evaluation on the scenario data\<close>

lemma binance_lookup: "exchange_from_name ''binance'' = BINANCE"
proof -
  have "exchange_name BINANCE = ''binance''"
    by (simp add: exchange_name_def BINANCE_def Exchange_COUNT_def EXCHANGE_NAMES_def)
  moreover have "BINANCE < Exchange_COUNT" by (simp add: BINANCE_def Exchange_COUNT_def)
  ultimately show ?thesis using exchange_from_name_of_name [of BINANCE] by simp
qed

lemma gemini_lookup: "exchange_from_name ''gemini'' = GEMINI"
proof -
  have "exchange_name GEMINI = ''gemini''"
    by (simp add: exchange_name_def GEMINI_def Exchange_COUNT_def EXCHANGE_NAMES_def)
  moreover have "GEMINI < Exchange_COUNT" by (simp add: GEMINI_def Exchange_COUNT_def)
  ultimately show ?thesis using exchange_from_name_of_name [of GEMINI] by simp
qed

lemma binance_valid: "BINANCE \<noteq> Exchange_COUNT" "BINANCE < Exchange_COUNT"
  by (simp_all add: BINANCE_def Exchange_COUNT_def)

lemma gemini_valid: "GEMINI \<noteq> Exchange_COUNT" "GEMINI < Exchange_COUNT"
  by (simp_all add: GEMINI_def Exchange_COUNT_def)

lemma binance_config:
  "fee_pct (get_exchange_config BINANCE) = 1 / 1000"
  "max_leverage (get_exchange_config BINANCE) = 125"
  by (simp_all add: get_exchange_config_def BINANCE_def Exchange_COUNT_def
      EXCHANGE_CONFIG_ROWS_def)

lemma gemini_config:
  "fee_pct (get_exchange_config GEMINI) = 4 / 1000"
  "max_leverage (get_exchange_config GEMINI) = 100"
  by (simp_all add: get_exchange_config_def GEMINI_def Exchange_COUNT_def
      EXCHANGE_CONFIG_ROWS_def)

lemma ladder_sell_50:
  "calculate_sell_impact 50 ladder_bids =
     \<lparr>start_price = 87000, end_price = 86850, vwap = 86930, price_drop_pct = 5 / 29,
      volume_filled = 50, volume_remaining = 0, total_cost = 4346500, levels_eaten = 4\<rparr>"
  by (simp add: calculate_sell_impact_def ladder_bids_def finish_vwap_def
      PriceImpact_default_def Let_def)

lemma ladder_sell_200:
  "calculate_sell_impact 200 ladder_bids =
     \<lparr>start_price = 87000, end_price = 86850, vwap = 608350 / 7, price_drop_pct = 5 / 29,
      volume_filled = 70, volume_remaining = 130, total_cost = 6083500, levels_eaten = 4\<rparr>"
  by (simp add: calculate_sell_impact_def ladder_bids_def finish_vwap_def
      PriceImpact_default_def Let_def)

lemma ladder_cache_state:
  "OrderBookCache_is_stale ladder_cache 0 BINANCE 5000 = False"
  "OrderBookCache_is_valid ladder_cache BINANCE = True"
  "bids (OrderBookCache_get ladder_cache BINANCE) = ladder_bids"
  "best_bid (OrderBookCache_get ladder_cache BINANCE) = 87000"
  by (simp_all add: ladder_cache_def OrderBookCache_update_def OrderBookCache_new_def
      OrderBookCache_is_stale_def OrderBookCache_is_valid_def OrderBookCache_get_def
      OrderBook_is_valid_def OrderBook_age_ms_def duration_ms_def ladder_book_def
      best_bid_def ladder_bids_def BINANCE_def Exchange_COUNT_def Let_def)

lemma process_signal_ladder_50:
  "process_signal ladder_cache TradingConfig_default 0 (inflow_signal ''binance'' 50) =
     \<lparr>should_trade = False, is_short = True, exchange = BINANCE, entry_price = 87000,
      exit_price = 0, impact = calculate_sell_impact 50 ladder_bids,
      reason = Reason ''Impact %.4f%% < required %.4f%% (2x fees)''
                 [ArgDbl (5 / 29), ArgDbl (2 / 10)]\<rparr>"
  by (simp add: process_signal_def inflow_signal_def binance_lookup TradingConfig_default_def
      TradeDecision_default_def ladder_cache_state ladder_sell_50 min_impact_pct_def
      binance_valid Let_def)

lemma process_signal_ladder_200:
  "process_signal ladder_cache TradingConfig_default 0 (inflow_signal ''binance'' 200) =
     \<lparr>should_trade = False, is_short = True, exchange = BINANCE, entry_price = 87000,
      exit_price = 0, impact = calculate_sell_impact 200 ladder_bids,
      reason = Reason ''Impact %.4f%% < required %.4f%% (2x fees)''
                 [ArgDbl (5 / 29), ArgDbl (2 / 10)]\<rparr>"
  by (simp add: process_signal_def inflow_signal_def binance_lookup TradingConfig_default_def
      TradeDecision_default_def ladder_cache_state ladder_sell_200 min_impact_pct_def
      binance_valid Let_def)

lemma process_instrument_signal_ladder_200:
  "process_instrument_signal TradingConfig_default 0 (inflow_signal ''binance'' 200) SPOT
     (InstrumentData_default\<lparr>book := ladder_book\<rparr>) =
     \<lparr>should_trade = False, is_short = True, exchange = BINANCE, entry_price = 87000,
      exit_price = 0, impact = calculate_sell_impact 200 ladder_bids,
      reason = Reason ''Insufficient depth'' []\<rparr>"
proof -
  have bk: "bids ladder_book = ladder_bids" "best_bid ladder_book = 87000"
    "OrderBook_is_valid ladder_book"
    by (simp_all add: ladder_book_def best_bid_def ladder_bids_def OrderBook_is_valid_def)
  show ?thesis
    by (simp add: process_instrument_signal_def inflow_signal_def binance_lookup
        TradingConfig_default_def TradeDecision_default_def InstrumentData_default_def
        InstrumentData_age_ms_def duration_ms_def bk ladder_sell_200 binance_valid Let_def)
qed

lemma stale_and_invalid:
  "OrderBookCache_is_stale OrderBookCache_new six_seconds BINANCE 5000"
  "\<not> OrderBookCache_is_valid OrderBookCache_new BINANCE"
  "InstrumentData_age_ms six_seconds InstrumentData_default > 5000"
  "\<not> OrderBook_is_valid (book InstrumentData_default)"
  by (simp_all add: OrderBookCache_is_stale_def OrderBookCache_is_valid_def
      OrderBookCache_new_def OrderBook_default_def OrderBook_age_ms_def duration_ms_def
      OrderBook_is_valid_def InstrumentData_age_ms_def InstrumentData_default_def
      six_seconds_def binance_valid)

lemma process_signal_stale_invalid:
  "reason (process_signal OrderBookCache_new TradingConfig_default six_seconds
            (inflow_signal ''binance'' 50)) =
     Reason ''Order book stale (>%dms old)'' [ArgInt 5000]"
  using stale_and_invalid(1)
  by (simp add: process_signal_def inflow_signal_def binance_lookup TradingConfig_default_def
      TradeDecision_default_def binance_valid Let_def)

lemma process_instrument_signal_stale_invalid:
  "reason (process_instrument_signal TradingConfig_default six_seconds
            (inflow_signal ''binance'' 50) SPOT InstrumentData_default) =
     Reason ''Order book not available'' []"
  using stale_and_invalid(4)
  by (simp add: process_instrument_signal_def inflow_signal_def binance_lookup
      TradingConfig_default_def TradeDecision_default_def binance_valid Let_def)

lemma half_percent_sell_5:
  "calculate_sell_impact 5 (bids half_percent_book) =
     \<lparr>start_price = 1000, end_price = 995, vwap = 996, price_drop_pct = 1 / 2,
      volume_filled = 5, volume_remaining = 0, total_cost = 4980, levels_eaten = 2\<rparr>"
  by (simp add: calculate_sell_impact_def half_percent_book_def finish_vwap_def
      PriceImpact_default_def Let_def)

lemma half_percent_cache_state:
  "OrderBookCache_is_stale half_percent_cache 0 GEMINI 5000 = False"
  "OrderBookCache_is_valid half_percent_cache GEMINI = True"
  "bids (OrderBookCache_get half_percent_cache GEMINI) = bids half_percent_book"
  "best_bid (OrderBookCache_get half_percent_cache GEMINI) = 1000"
  by (simp_all add: half_percent_cache_def OrderBookCache_update_def OrderBookCache_new_def
      OrderBookCache_is_stale_def OrderBookCache_is_valid_def OrderBookCache_get_def
      OrderBook_is_valid_def OrderBook_age_ms_def duration_ms_def half_percent_book_def
      best_bid_def GEMINI_def Exchange_COUNT_def Let_def)

lemma process_signal_half_percent:
  "process_signal half_percent_cache TradingConfig_default 0 (inflow_signal ''gemini'' 5) =
     \<lparr>should_trade = True, is_short = True, exchange = GEMINI, entry_price = 1000,
      exit_price = 996, impact = calculate_sell_impact 5 (bids half_percent_book),
      reason = Reason ''TRADE: Impact %.4f%% > %.4f%% | Expected +%.2f%%''
                 [ArgDbl (1 / 2), ArgDbl (2 / 10), ArgDbl 40]\<rparr>"
  by (simp add: process_signal_def inflow_signal_def gemini_lookup TradingConfig_default_def
      TradeDecision_default_def half_percent_cache_state half_percent_sell_5
      min_impact_pct_def gemini_valid calculate_exit_price_def expected_return_def
      leverage_def gemini_config PriceImpact_leveraged_return_def
      PriceImpact_expected_profit_pct_def Let_def)

lemma process_instrument_signal_half_percent:
  "process_instrument_signal TradingConfig_default 0 (inflow_signal ''gemini'' 5) SPOT
     (InstrumentData_default\<lparr>book := half_percent_book\<rparr>) =
     \<lparr>should_trade = False, is_short = True, exchange = GEMINI, entry_price = 1000,
      exit_price = 0, impact = calculate_sell_impact 5 (bids half_percent_book),
      reason = Reason ''[%s] Impact %.4f%% < required %.4f%% (2x fees)''
                 [ArgStr ''spot'', ArgDbl (1 / 2), ArgDbl (8 / 10)]\<rparr>"
proof -
  have bk: "best_bid half_percent_book = 1000" "OrderBook_is_valid half_percent_book"
    by (simp_all add: half_percent_book_def best_bid_def OrderBook_is_valid_def)
  have nm: "instrument_name SPOT = ''spot''"
    by (simp add: instrument_name_def INSTRUMENT_NAMES_def)
  show ?thesis
    by (simp add: process_instrument_signal_def inflow_signal_def gemini_lookup
        TradingConfig_default_def TradeDecision_default_def InstrumentData_default_def
        InstrumentData_age_ms_def duration_ms_def bk nm half_percent_sell_5 gemini_valid
        gemini_config Let_def)
qed

subsection \<open>Signal handler: what decides a rejection\<close>

text \<open>In \<open>process_signal\<close> a stale book is reported before an invalid one, and the
  threshold is the configuration's \<open>fees_pct \<cdot> min_impact_multiple\<close>, whatever the venue.\<close>

lemma process_signal_stale_before_invalid:
  assumes "exchange_from_name (exchange_sig s) \<noteq> Exchange_COUNT"
    and "\<not> btc_amount s < min_deposit_btc cfg"
    and "OrderBookCache_is_stale c now (exchange_from_name (exchange_sig s)) (max_book_age_ms cfg)"
  shows "reason (process_signal c cfg now s) =
           Reason ''Order book stale (>%dms old)'' [ArgInt (max_book_age_ms cfg)]"
    and "\<not> should_trade (process_signal c cfg now s)"
  using assms by (simp_all add: process_signal_def TradeDecision_default_def Let_def)

lemma process_signal_threshold:
  assumes "exchange_from_name (exchange_sig s) \<noteq> Exchange_COUNT"
    and "\<not> btc_amount s < min_deposit_btc cfg"
    and "\<not> OrderBookCache_is_stale c now (exchange_from_name (exchange_sig s)) (max_book_age_ms cfg)"
    and "OrderBookCache_is_valid c (exchange_from_name (exchange_sig s))"
  shows "should_trade (process_signal c cfg now s) \<longleftrightarrow>
           \<not> \<bar>price_drop_pct (impact (process_signal c cfg now s))\<bar>
               < fees_pct cfg * min_impact_multiple cfg \<and>
           \<not> volume_remaining (impact (process_signal c cfg now s)) > 0"
  using assms
  by (simp add: process_signal_def TradeDecision_default_def min_impact_pct_def Let_def)

text \<open>It compares the impact before it looks at the depth: an impact below the
  threshold is the reason reported, whatever volume remains.\<close>

lemma process_signal_impact_before_depth:
  assumes "exchange_from_name (exchange_sig s) \<noteq> Exchange_COUNT"
    and "\<not> btc_amount s < min_deposit_btc cfg"
    and "\<not> OrderBookCache_is_stale c now (exchange_from_name (exchange_sig s)) (max_book_age_ms cfg)"
    and "OrderBookCache_is_valid c (exchange_from_name (exchange_sig s))"
    and "\<bar>price_drop_pct (impact (process_signal c cfg now s))\<bar> < min_impact_pct cfg"
  shows "reason (process_signal c cfg now s) =
           Reason ''Impact %.4f%% < required %.4f%% (2x fees)''
             [ArgDbl \<bar>price_drop_pct (impact (process_signal c cfg now s))\<bar>,
              ArgDbl (min_impact_pct cfg)]"
  using assms
  by (simp add: process_signal_def TradeDecision_default_def Let_def split: if_splits)

text \<open>In \<open>process_instrument_signal\<close> insufficient depth is reported before the impact
  is compared, and the threshold comes from the venue's taker fee: no row of the
  configuration table has a fee below \<open>0.01%\<close>, so the fallback to the configured fee
  is never taken.\<close>

lemma process_instrument_signal_depth_before_impact:
  assumes "exchange_from_name (exchange_sig s) \<noteq> Exchange_COUNT"
    and "\<not> btc_amount s < min_deposit_btc cfg"
    and "OrderBook_is_valid (book d)"
    and "\<not> InstrumentData_age_ms now d > max_book_age_ms cfg"
    and "volume_remaining (impact (process_instrument_signal cfg now s t d)) > 0"
  shows "reason (process_instrument_signal cfg now s t d) = Reason ''Insufficient depth'' []"
    and "\<not> should_trade (process_instrument_signal cfg now s t d)"
  using assms
  by (simp_all add: process_instrument_signal_def TradeDecision_default_def Let_def
      split: if_splits prod.splits)

text \<open>It tests validity before staleness: an invalid book is reported as not available,
  whatever its age.\<close>

lemma process_instrument_signal_invalid_before_stale:
  assumes "exchange_from_name (exchange_sig s) \<noteq> Exchange_COUNT"
    and "\<not> btc_amount s < min_deposit_btc cfg"
    and "\<not> OrderBook_is_valid (book d)"
  shows "reason (process_instrument_signal cfg now s t d) = Reason ''Order book not available'' []"
  using assms
  by (simp add: process_instrument_signal_def TradeDecision_default_def Let_def)

lemma instrument_adjust_reads:
  "is_short a = is_short b \<Longrightarrow> entry_price a = entry_price b \<Longrightarrow>
   instrument_adjust t d a x = instrument_adjust t d b x"
  by (cases t; cases x) simp_all

lemma EXCHANGE_CONFIG_ROWS_aligned: "map fst EXCHANGE_CONFIG_ROWS = Exchange_enumerators"
  by (simp add: EXCHANGE_CONFIG_ROWS_def Exchange_enumerators_def)

lemma venue_fee_rows:
  "list_all (\<lambda>row. snd (snd (snd (snd row))) * 100 \<ge> 1 / 100) EXCHANGE_CONFIG_ROWS"
  by (simp add: EXCHANGE_CONFIG_ROWS_def)

lemma venue_fee_present:
  "\<not> fee_pct (get_exchange_config ex) * 100 < 1 / 100"
proof (cases "ex < Exchange_COUNT")
  case True
  have len: "length EXCHANGE_CONFIG_ROWS = Exchange_COUNT"
    by (simp add: EXCHANGE_CONFIG_ROWS_def Exchange_COUNT_def)
  with True have "EXCHANGE_CONFIG_ROWS ! ex \<in> set EXCHANGE_CONFIG_ROWS" by simp
  with venue_fee_rows
  have "snd (snd (snd (snd (EXCHANGE_CONFIG_ROWS ! ex)))) * 100 \<ge> 1 / 100"
    by (simp add: list_all_iff)
  then show ?thesis
    using True by (auto simp: get_exchange_config_def split: prod.splits)
next
  case False
  then show ?thesis by (simp add: get_exchange_config_def)
qed

lemma process_instrument_signal_threshold:
  assumes "exchange_from_name (exchange_sig s) \<noteq> Exchange_COUNT"
    and "\<not> btc_amount s < min_deposit_btc cfg"
    and "OrderBook_is_valid (book d)"
    and "\<not> InstrumentData_age_ms now d > max_book_age_ms cfg"
    and "\<not> volume_remaining (impact (process_instrument_signal cfg now s t d)) > 0"
  shows "should_trade (process_instrument_signal cfg now s t d) \<longleftrightarrow>
           (case instrument_adjust t d (process_instrument_signal cfg now s t d)
                   (\<bar>price_drop_pct (impact (process_instrument_signal cfg now s t d))\<bar>,
                    fee_pct (get_exchange_config (exchange_from_name (exchange_sig s))) * 100)
            of (adjusted_impact, adjusted_fees) \<Rightarrow>
               \<not> adjusted_impact < adjusted_fees * min_impact_multiple cfg)"
proof -
  let ?ex = "exchange_from_name (exchange_sig s)"
  let ?fee = "fee_pct (get_exchange_config ?ex) * 100"
  let ?P = "process_instrument_signal cfg now s t d"
  define d2 where "d2 =
    (if is_inflow s
     then TradeDecision_default\<lparr>is_short := is_inflow s, exchange := ?ex,
            impact := calculate_sell_impact (btc_amount s) (bids (book d)),
            entry_price := best_bid (book d)\<rparr>
     else TradeDecision_default\<lparr>is_short := is_inflow s, exchange := ?ex,
            impact := calculate_buy_impact (btc_amount s) (asks (book d)),
            entry_price := best_ask (book d)\<rparr>)"
  obtain a f where adj: "instrument_adjust t d d2 (\<bar>price_drop_pct (impact d2)\<bar>, ?fee) = (a, f)"
    by (cases "instrument_adjust t d d2 (\<bar>price_drop_pct (impact d2)\<bar>, ?fee)")
  have fee: "\<not> ?fee < 1 / 100" by (rule venue_fee_present)
  have P: "?P =
    (if volume_remaining (impact d2) > 0 then d2\<lparr>reason := Reason ''Insufficient depth'' []\<rparr>
     else if a < f * min_impact_multiple cfg
     then d2\<lparr>reason := Reason ''[%s] Impact %.4f%% < required %.4f%% (2x fees)''
                [ArgStr (instrument_name t), ArgDbl a, ArgDbl (f * min_impact_multiple cfg)]\<rparr>
     else d2\<lparr>should_trade := True,
             exit_price := calculate_exit_price (entry_price d2) (impact d2) (is_short d2)
                             (take_profit_ratio cfg),
             reason := Reason ''[%s] TRADE: Impact %.4f%% > %.4f%% | Profit: +%.2f%%''
                [ArgStr (instrument_name t), ArgDbl a, ArgDbl (f * min_impact_multiple cfg),
                 ArgDbl (a - f)]\<rparr>)"
  proof (cases "is_inflow s")
    case True
    with adj have adj': "instrument_adjust t d
        (TradeDecision_default\<lparr>is_short := True, exchange := ?ex,
            impact := calculate_sell_impact (btc_amount s) (bids (book d)),
            entry_price := best_bid (book d)\<rparr>)
        (\<bar>price_drop_pct (calculate_sell_impact (btc_amount s) (bids (book d)))\<bar>, ?fee) = (a, f)"
      by (simp add: d2_def)
    show ?thesis
      using assms(1-4) fee True adj'
      by (simp add: process_instrument_signal_def d2_def Let_def)
  next
    case False
    with adj have adj': "instrument_adjust t d
        (TradeDecision_default\<lparr>is_short := False, exchange := ?ex,
            impact := calculate_buy_impact (btc_amount s) (asks (book d)),
            entry_price := best_ask (book d)\<rparr>)
        (\<bar>price_drop_pct (calculate_buy_impact (btc_amount s) (asks (book d)))\<bar>, ?fee) = (a, f)"
      by (simp add: d2_def)
    show ?thesis
      using assms(1-4) fee False adj'
      by (simp add: process_instrument_signal_def d2_def Let_def)
  qed
  have dflt: "\<not> should_trade d2" by (simp add: d2_def TradeDecision_default_def)
  have same: "impact ?P = impact d2" "is_short ?P = is_short d2" "entry_price ?P = entry_price d2"
    by (simp_all add: P)
  have ad: "instrument_adjust t d ?P (\<bar>price_drop_pct (impact ?P)\<bar>, ?fee) = (a, f)"
    using instrument_adjust_reads [OF same(2,3)] adj same(1) by simp
  have vr: "\<not> volume_remaining (impact d2) > 0"
    using assms(5) same(1) by simp
  have st: "should_trade ?P \<longleftrightarrow> \<not> a < f * min_impact_multiple cfg"
    using vr dflt by (simp add: P)
  show ?thesis by (simp add: ad st)
qed

text \<open>
  C4, with the figures the walk produces. Selling 50 into the ladder
  \<open>[(87000,10),(86950,15),(86900,20),(86850,25)]\<close> fills 50, ends at 86850 and drops the
  price by \<open>(87000 - 86850) / 87000 \<cdot> 100\<close>, which lies between 0.17241 and 0.17242;
  the total cost is \<open>10\<cdot>87000 + 15\<cdot>86950 + 20\<cdot>86900 + 5\<cdot>86850 = 4,346,500\<close> and the
  VWAP is 86930. With a venue fee of 0.10% and the default configuration the decision
  of \<open>process_signal\<close> is a reject: the impact is below the required 0.20.
\<close>

theorem scenario_sell_50:
  "volume_filled (calculate_sell_impact 50 ladder_bids) = 50 \<and>
   end_price (calculate_sell_impact 50 ladder_bids) = 86850 \<and>
   price_drop_pct (calculate_sell_impact 50 ladder_bids) = (87000 - 86850) / 87000 * 100 \<and>
   17241 / 100000 < price_drop_pct (calculate_sell_impact 50 ladder_bids) \<and>
   price_drop_pct (calculate_sell_impact 50 ladder_bids) < 17242 / 100000 \<and>
   total_cost (calculate_sell_impact 50 ladder_bids)
     = 10 * 87000 + 15 * 86950 + 20 * 86900 + 5 * 86850 \<and>
   total_cost (calculate_sell_impact 50 ladder_bids) = 4346500 \<and>
   vwap (calculate_sell_impact 50 ladder_bids) = 86930 \<and>
   fee_pct (get_config BINANCE) * 100 = 10 / 100 \<and>
   min_impact_multiple TradingConfig_default = 2 \<and>
   \<not> should_trade (process_signal ladder_cache TradingConfig_default 0
      (inflow_signal ''binance'' 50)) \<and>
   reason (process_signal ladder_cache TradingConfig_default 0 (inflow_signal ''binance'' 50)) =
     Reason ''Impact %.4f%% < required %.4f%% (2x fees)''
       [ArgDbl (price_drop_pct (calculate_sell_impact 50 ladder_bids)), ArgDbl (20 / 100)]"
proof -
  have cfg: "min_impact_multiple TradingConfig_default = 2"
    by (simp add: TradingConfig_default_def)
  show ?thesis
    by (simp add: process_signal_ladder_50 ladder_sell_50 get_config_def binance_config cfg)
qed

text \<open>The figures of the specification, total cost 4,346,250 and VWAP 86925, are not
  what the walk gives: the sum of the four products is 4,346,500.\<close>

theorem scenario_figures_counterexample:
  "total_cost (calculate_sell_impact 50 ladder_bids) \<noteq> 4346250 \<and>
   vwap (calculate_sell_impact 50 ladder_bids) \<noteq> 86925"
  by (simp add: ladder_sell_50)

text \<open>
  C2. The two handlers do not both follow the listed order. For the ladder and a
  quantity of 200 the walk leaves 130 unfilled and the impact is below the threshold:
  \<open>process_signal\<close> compares the impact first and reports it, where
  \<open>process_instrument_signal\<close> reports insufficient depth. For a book that is both stale
  and invalid \<open>process_instrument_signal\<close> tests validity first and reports the book as
  not available, where \<open>process_signal\<close> reports it as stale.
\<close>

theorem reject_order_differs:
  "volume_remaining (impact (process_signal ladder_cache TradingConfig_default 0
      (inflow_signal ''binance'' 200))) = 130 \<and>
   \<bar>price_drop_pct (impact (process_signal ladder_cache TradingConfig_default 0
      (inflow_signal ''binance'' 200)))\<bar> < min_impact_pct TradingConfig_default \<and>
   reason (process_signal ladder_cache TradingConfig_default 0 (inflow_signal ''binance'' 200)) =
     Reason ''Impact %.4f%% < required %.4f%% (2x fees)'' [ArgDbl (5 / 29), ArgDbl (2 / 10)] \<and>
   reason (process_instrument_signal TradingConfig_default 0 (inflow_signal ''binance'' 200) SPOT
      (InstrumentData_default\<lparr>book := ladder_book\<rparr>)) = Reason ''Insufficient depth'' [] \<and>
   InstrumentData_age_ms six_seconds InstrumentData_default
      > max_book_age_ms TradingConfig_default \<and>
   \<not> OrderBook_is_valid (book InstrumentData_default) \<and>
   reason (process_instrument_signal TradingConfig_default six_seconds
      (inflow_signal ''binance'' 50) SPOT InstrumentData_default) =
     Reason ''Order book not available'' [] \<and>
   OrderBookCache_is_stale OrderBookCache_new six_seconds BINANCE
      (max_book_age_ms TradingConfig_default) \<and>
   \<not> OrderBookCache_is_valid OrderBookCache_new BINANCE \<and>
   reason (process_signal OrderBookCache_new TradingConfig_default six_seconds
      (inflow_signal ''binance'' 50)) = Reason ''Order book stale (>%dms old)'' [ArgInt 5000]"
proof -
  have cfg: "max_book_age_ms TradingConfig_default = 5000"
    "min_impact_pct TradingConfig_default = 2 / 10"
    by (simp_all add: TradingConfig_default_def min_impact_pct_def)
  show ?thesis
    using stale_and_invalid
    by (simp add: process_signal_ladder_200 process_instrument_signal_ladder_200
        ladder_sell_200 process_signal_stale_invalid process_instrument_signal_stale_invalid
        cfg)
qed

text \<open>
  C3. \<open>process_signal\<close> computes the venue's fee and does not use it: for \<^verbatim>\<open>gemini\<close>,
  whose taker fee of 0.40% gives a threshold of 0.80, an impact of 0.50 with full depth is
  accepted, because the comparison is with the configured \<open>0.10 \<cdot> 2 = 0.20\<close>.
  \<open>process_instrument_signal\<close> rejects the same signal on the same book against 0.80.
\<close>

theorem process_signal_ignores_venue_fee:
  "fee_pct (get_config GEMINI) * 100 * min_impact_multiple TradingConfig_default = 8 / 10 \<and>
   \<bar>price_drop_pct (impact (process_signal half_percent_cache TradingConfig_default 0
      (inflow_signal ''gemini'' 5)))\<bar> = 1 / 2 \<and>
   volume_remaining (impact (process_signal half_percent_cache TradingConfig_default 0
      (inflow_signal ''gemini'' 5))) = 0 \<and>
   should_trade (process_signal half_percent_cache TradingConfig_default 0
      (inflow_signal ''gemini'' 5)) \<and>
   reason (process_signal half_percent_cache TradingConfig_default 0
      (inflow_signal ''gemini'' 5)) =
     Reason ''TRADE: Impact %.4f%% > %.4f%% | Expected +%.2f%%''
       [ArgDbl (1 / 2), ArgDbl (fees_pct TradingConfig_default * 2), ArgDbl 40] \<and>
   \<not> should_trade (process_instrument_signal TradingConfig_default 0
      (inflow_signal ''gemini'' 5) SPOT (InstrumentData_default\<lparr>book := half_percent_book\<rparr>)) \<and>
   reason (process_instrument_signal TradingConfig_default 0
      (inflow_signal ''gemini'' 5) SPOT (InstrumentData_default\<lparr>book := half_percent_book\<rparr>)) =
     Reason ''[%s] Impact %.4f%% < required %.4f%% (2x fees)''
       [ArgStr ''spot'', ArgDbl (1 / 2), ArgDbl (8 / 10)]"
proof -
  have cfg: "min_impact_multiple TradingConfig_default = 2"
    "fees_pct TradingConfig_default = 1 / 10"
    by (simp_all add: TradingConfig_default_def)
  show ?thesis
    by (simp add: process_signal_half_percent process_instrument_signal_half_percent
        half_percent_sell_5 get_config_def gemini_config cfg)
qed

subsection \<open>Sequence numbers of the caches\<close>

lemma unat_inc: "unat w + 1 < 2 ^ 64 \<Longrightarrow> unat (w + 1) = unat w + 1" for w :: "64 word"
  using unat_add_lem [of w 1] by simp

lemma word_inc_less_unat: "unat w + 1 < 2 ^ 64 \<Longrightarrow> w < w + 1" for w :: "64 word"
  using unat_inc [of w] by (simp add: word_less_nat_alt)

text \<open>The effect of the writes of \<open>OrderBookCache\<close> on a venue's counter.\<close>

lemma clear_counters:
  "sequence_counters (OrderBookCache_clear c x) ex =
     (if ex = x \<and> ex < Exchange_COUNT then sequence_counters c ex + 1
      else sequence_counters c ex)"
  by (simp add: OrderBookCache_clear_def)

lemma clear_books:
  "books (OrderBookCache_clear c x) ex =
     (if ex = x \<and> ex < Exchange_COUNT
      then (OrderBook_clear (books c ex))\<lparr>sequence := sequence_counters c ex + 1\<rparr>
      else books c ex)"
  by (simp add: OrderBookCache_clear_def)

lemma clear_fold_counters:
  "distinct xs \<Longrightarrow>
   sequence_counters (fold (\<lambda>i c'. OrderBookCache_clear c' i) xs c) ex =
     (if ex \<in> set xs \<and> ex < Exchange_COUNT then sequence_counters c ex + 1
      else sequence_counters c ex)"
  by (induction xs arbitrary: c) (auto simp: clear_counters)

lemma clear_fold_books:
  "distinct xs \<Longrightarrow>
   books (fold (\<lambda>i c'. OrderBookCache_clear c' i) xs c) ex =
     (if ex \<in> set xs \<and> ex < Exchange_COUNT
      then (OrderBook_clear (books c ex))\<lparr>sequence := sequence_counters c ex + 1\<rparr>
      else books c ex)"
  by (induction xs arbitrary: c) (auto simp: clear_counters clear_books)

lemma clear_all_counters:
  "sequence_counters (OrderBookCache_clear_all c) ex =
     (if ex < Exchange_COUNT then sequence_counters c ex + 1 else sequence_counters c ex)"
  by (simp add: OrderBookCache_clear_all_def clear_fold_counters)

lemma clear_all_books:
  "books (OrderBookCache_clear_all c) ex =
     (if ex < Exchange_COUNT
      then (OrderBook_clear (books c ex))\<lparr>sequence := sequence_counters c ex + 1\<rparr>
      else books c ex)"
  by (simp add: OrderBookCache_clear_all_def clear_fold_books)

lemma OB_write_bumps:
  assumes "OB_writes op ex"
  shows "sequence_counters (OrderBookCache_apply op c) ex = sequence_counters c ex + 1"
    and "sequence (books (OrderBookCache_apply op c) ex) = sequence_counters c ex + 1"
  using assms
  by (cases op; simp add: OrderBookCache_update_def OrderBookCache_update_bids_def
      OrderBookCache_update_asks_def OrderBookCache_clear_def clear_all_counters
      clear_all_books OrderBook_clear_def Let_def)+

lemma OB_other_keeps:
  assumes "\<not> OB_writes op ex"
  shows "sequence_counters (OrderBookCache_apply op c) ex = sequence_counters c ex"
    and "books (OrderBookCache_apply op c) ex = books c ex"
  using assms
  by (cases op; auto simp add: OrderBookCache_update_def OrderBookCache_update_bids_def
      OrderBookCache_update_asks_def OrderBookCache_clear_def clear_all_counters
      clear_all_books Let_def)+

lemma OB_get_sequence_step:
  "OrderBookCache_get_sequence (OrderBookCache_apply op c) ex =
     (if OB_writes op ex then OrderBookCache_get_sequence c ex + 1
      else OrderBookCache_get_sequence c ex)"
proof (cases "OB_writes op ex")
  case True
  then have "ex < Exchange_COUNT" by (cases op) simp_all
  with True show ?thesis by (simp add: OrderBookCache_get_sequence_def OB_write_bumps)
next
  case False
  then show ?thesis by (simp add: OrderBookCache_get_sequence_def OB_other_keeps)
qed

lemma OB_get_sequence_trace:
  "unat (OrderBookCache_get_sequence c ex) + length ops < 2 ^ 64 \<Longrightarrow>
   unat (OrderBookCache_get_sequence (fold OrderBookCache_apply ops c) ex) =
     unat (OrderBookCache_get_sequence c ex) + length (filter (\<lambda>op. OB_writes op ex) ops)"
proof (induction ops arbitrary: c)
  case Nil
  show ?case by simp
next
  case (Cons op ops)
  show ?case
  proof (cases "OB_writes op ex")
    case True
    have u: "unat (OrderBookCache_get_sequence c ex + 1) = unat (OrderBookCache_get_sequence c ex) + 1"
      using Cons.prems by (intro unat_inc) simp
    have "unat (OrderBookCache_get_sequence (OrderBookCache_apply op c) ex) + length ops < 2 ^ 64"
      using Cons.prems True u by (simp add: OB_get_sequence_step)
    from Cons.IH [OF this] True u show ?thesis by (simp add: OB_get_sequence_step)
  next
    case False
    have "unat (OrderBookCache_get_sequence (OrderBookCache_apply op c) ex) + length ops < 2 ^ 64"
      using Cons.prems False by (simp add: OB_get_sequence_step)
    from Cons.IH [OF this] False show ?thesis by (simp add: OB_get_sequence_step)
  qed
qed

lemma OB_get_sequence_monotone:
  assumes "unat (OrderBookCache_get_sequence c ex) + length ops < 2 ^ 64"
  shows "OrderBookCache_get_sequence c ex
           \<le> OrderBookCache_get_sequence (fold OrderBookCache_apply ops c) ex"
  using OB_get_sequence_trace [OF assms] by (simp add: word_le_nat_alt)

text \<open>The effect of the writes of \<open>InstrumentCache\<close> on the stored sequences.\<close>

lemma get_sequence_stored:
  "InstrumentCache_get_sequence c ex t = stored_sequence c (make_key ex t)"
  by (simp add: InstrumentCache_get_sequence_def stored_sequence_def)

text \<open>Every store has the same shape: the counter is incremented and the entry stored
  under one key carries the new counter.\<close>

lemma store_effect:
  assumes c': "c' = c\<lparr>global_sequence := global_sequence c + 1,
                       cache := (cache c)(k \<mapsto> d)\<rparr>"
    and d: "sequence_inst d = global_sequence c + 1"
  shows "stored_sequence c' k = global_sequence c + 1"
    and "k' \<noteq> k \<Longrightarrow> stored_sequence c' k' = stored_sequence c k'"
    and "global_sequence c' = global_sequence c + 1"
  using assms by (simp_all add: stored_sequence_def)

lemma store_bounded:
  assumes c': "c' = c\<lparr>global_sequence := global_sequence c + 1,
                       cache := (cache c)(k \<mapsto> d)\<rparr>"
    and d: "sequence_inst d = global_sequence c + 1"
    and b: "sequences_bounded c"
    and n: "unat (global_sequence c) + 1 < 2 ^ 64"
  shows "sequences_bounded c'"
    and "stored_sequence c k'' \<le> stored_sequence c' k''"
    and "global_sequence c < stored_sequence c' k"
proof -
  note e = store_effect [OF c' d]
  have lt: "global_sequence c < global_sequence c + 1" using n by (rule word_inc_less_unat)
  have le: "stored_sequence c j \<le> global_sequence c" for j
    using b by (simp add: sequences_bounded_def)
  show "global_sequence c < stored_sequence c' k" using lt by (simp add: e(1))
  show "stored_sequence c k'' \<le> stored_sequence c' k''"
  proof (cases "k'' = k")
    case True
    with le [of k] lt show ?thesis by (simp add: e(1))
  next
    case False
    then show ?thesis by (simp add: e(2))
  qed
  show "sequences_bounded c'"
    unfolding sequences_bounded_def
  proof
    fix j
    show "stored_sequence c' j \<le> global_sequence c'"
    proof (cases "j = k")
      case True
      then show ?thesis by (simp add: e(1,3))
    next
      case False
      with le [of j] lt show ?thesis by (simp add: e(2,3))
    qed
  qed
qed

lemma single_store_the:
  assumes "\<not> is_batch op"
  shows "InstrumentCache_apply op c =
           c\<lparr>global_sequence := global_sequence c + 1,
             cache := (cache c)(hd (IC_keys op) \<mapsto>
                        the (cache (InstrumentCache_apply op c) (hd (IC_keys op))))\<rparr> \<and>
         sequence_inst (the (cache (InstrumentCache_apply op c) (hd (IC_keys op))))
           = global_sequence c + 1"
  using assms
  by (cases op)
    (simp_all add: InstrumentCache_update_def InstrumentCache_update_book_def
      InstrumentCache_update_funding_def InstrumentCache_update_mark_price_def
      InstrumentCache_update_greeks_def Let_def)

lemma single_store:
  assumes "\<not> is_batch op"
  shows "\<exists>d. InstrumentCache_apply op c =
               c\<lparr>global_sequence := global_sequence c + 1,
                 cache := (cache c)(hd (IC_keys op) \<mapsto> d)\<rparr> \<and>
             sequence_inst d = global_sequence c + 1"
  using single_store_the [OF assms, of c] by (rule exI)

lemma batch_step_store:
  "\<exists>d'. update_batch_step now ex d c =
               c\<lparr>global_sequence := global_sequence c + 1,
                 cache := (cache c)(make_key ex (type_inst d) \<mapsto> d')\<rparr> \<and>
             sequence_inst d' = global_sequence c + 1"
  by (rule exI [of _ "d\<lparr>timestamp_inst := now, sequence_inst := global_sequence c + 1\<rparr>"])
    (simp add: update_batch_step_def Let_def)

lemma batch_fold:
  fixes now :: time_point and ex :: Exchange
  assumes "sequences_bounded c" and "unat (global_sequence c) + length ds < 2 ^ 64"
  defines "c' \<equiv> fold (update_batch_step now ex) ds c"
  shows "sequences_bounded c'"
    and "unat (global_sequence c') = unat (global_sequence c) + length ds"
    and "stored_sequence c k \<le> stored_sequence c' k"
    and "d \<in> set ds \<Longrightarrow> global_sequence c < stored_sequence c' (make_key ex (type_inst d))"
proof -
  have "sequences_bounded c \<Longrightarrow> unat (global_sequence c) + length ds < 2 ^ 64 \<Longrightarrow>
    sequences_bounded (fold (update_batch_step now ex) ds c) \<and>
    unat (global_sequence (fold (update_batch_step now ex) ds c))
      = unat (global_sequence c) + length ds \<and>
    (\<forall>k. stored_sequence c k \<le> stored_sequence (fold (update_batch_step now ex) ds c) k) \<and>
    (\<forall>d \<in> set ds. global_sequence c
       < stored_sequence (fold (update_batch_step now ex) ds c) (make_key ex (type_inst d)))"
  proof (induction ds arbitrary: c)
    case Nil
    then show ?case by simp
  next
    case (Cons x xs)
    let ?c1 = "update_batch_step now ex x c"
    let ?c' = "fold (update_batch_step now ex) xs ?c1"
    obtain d' where st: "?c1 = c\<lparr>global_sequence := global_sequence c + 1,
        cache := (cache c)(make_key ex (type_inst x) \<mapsto> d')\<rparr>"
      "sequence_inst d' = global_sequence c + 1"
      using batch_step_store by blast
    have n1: "unat (global_sequence c) + 1 < 2 ^ 64" using Cons.prems by simp
    note sb = store_bounded [OF st Cons.prems(1) n1]
    have g1: "global_sequence ?c1 = global_sequence c + 1" by (rule store_effect [OF st])
    have u1: "unat (global_sequence ?c1) = unat (global_sequence c) + 1"
      using n1 by (simp add: g1 unat_inc)
    have lt: "global_sequence c < global_sequence ?c1"
      using n1 by (simp add: g1 word_inc_less_unat)
    have "unat (global_sequence ?c1) + length xs < 2 ^ 64" using Cons.prems u1 by simp
    from Cons.IH [OF sb(1) this]
    have ih: "sequences_bounded ?c'"
      "unat (global_sequence ?c') = unat (global_sequence ?c1) + length xs"
      "\<And>k. stored_sequence ?c1 k \<le> stored_sequence ?c' k"
      "\<And>d. d \<in> set xs \<Longrightarrow>
         global_sequence ?c1 < stored_sequence ?c' (make_key ex (type_inst d))"
      by simp_all
    have a: "stored_sequence c k \<le> stored_sequence ?c' k" for k
      using sb(2) [of k] ih(3) [of k] by (rule order_trans)
    have b: "global_sequence c < stored_sequence ?c' (make_key ex (type_inst d))"
      if "d \<in> set (x # xs)" for d
    proof (cases "d = x")
      case True
      with sb(3) ih(3) [of "make_key ex (type_inst x)"] show ?thesis by simp
    next
      case False
      with that have "d \<in> set xs" by simp
      from ih(4) [OF this] lt show ?thesis by simp
    qed
    show ?case using ih(1,2) u1 a b by simp
  qed
  from this [OF assms(1,2)]
  show "sequences_bounded c'"
    and "unat (global_sequence c') = unat (global_sequence c) + length ds"
    and "stored_sequence c k \<le> stored_sequence c' k"
    and "d \<in> set ds \<Longrightarrow> global_sequence c < stored_sequence c' (make_key ex (type_inst d))"
    by (simp_all add: c'_def)
qed

lemma IC_write:
  assumes "sequences_bounded c" and "unat (global_sequence c) + length (IC_keys op) < 2 ^ 64"
  shows "sequences_bounded (InstrumentCache_apply op c)"
    and "unat (global_sequence (InstrumentCache_apply op c))
           = unat (global_sequence c) + length (IC_keys op)"
    and "stored_sequence c k \<le> stored_sequence (InstrumentCache_apply op c) k"
    and "k \<in> set (IC_keys op) \<Longrightarrow>
           global_sequence c < stored_sequence (InstrumentCache_apply op c) k"
proof -
  have "sequences_bounded (InstrumentCache_apply op c) \<and>
    unat (global_sequence (InstrumentCache_apply op c))
      = unat (global_sequence c) + length (IC_keys op) \<and>
    stored_sequence c k \<le> stored_sequence (InstrumentCache_apply op c) k \<and>
    (k \<in> set (IC_keys op) \<longrightarrow>
       global_sequence c < stored_sequence (InstrumentCache_apply op c) k)"
  proof (cases "is_batch op")
    case True
    then obtain now ex ds where op: "op = IC_update_batch now ex ds" by (cases op) simp_all
    from assms(2) have n: "unat (global_sequence c) + length ds < 2 ^ 64" by (simp add: op)
    note bf = batch_fold [OF assms(1) n, where now = now and ex = ex]
    show ?thesis
      using bf(1,2) bf(3) [of k] bf(4)
      by (auto simp: op InstrumentCache_update_batch_def)
  next
    case False
    then have one: "IC_keys op = [hd (IC_keys op)]" by (cases op) simp_all
    from single_store [OF False, of c] obtain d
      where st: "InstrumentCache_apply op c =
          c\<lparr>global_sequence := global_sequence c + 1,
            cache := (cache c)(hd (IC_keys op) \<mapsto> d)\<rparr>"
        "sequence_inst d = global_sequence c + 1"
      by blast
    have n1: "unat (global_sequence c) + 1 < 2 ^ 64"
      using assms(2) by (subst (asm) one) simp
    note sb = store_bounded [OF st assms(1) n1]
    have "global_sequence (InstrumentCache_apply op c) = global_sequence c + 1"
      by (rule store_effect [OF st])
    then have u: "unat (global_sequence (InstrumentCache_apply op c))
        = unat (global_sequence c) + length (IC_keys op)"
      using n1 by (subst one) (simp add: unat_inc)
    have "k \<in> set (IC_keys op) \<Longrightarrow> k = hd (IC_keys op)"
      by (subst (asm) one) simp
    with sb u show ?thesis by auto
  qed
  then show "sequences_bounded (InstrumentCache_apply op c)"
    and "unat (global_sequence (InstrumentCache_apply op c))
           = unat (global_sequence c) + length (IC_keys op)"
    and "stored_sequence c k \<le> stored_sequence (InstrumentCache_apply op c) k"
    and "k \<in> set (IC_keys op) \<Longrightarrow>
           global_sequence c < stored_sequence (InstrumentCache_apply op c) k"
    by simp_all
qed

lemma IC_write_increases:
  assumes "sequences_bounded c" and "unat (global_sequence c) + length (IC_keys op) < 2 ^ 64"
    and "k \<in> set (IC_keys op)"
  shows "stored_sequence c k < stored_sequence (InstrumentCache_apply op c) k"
proof -
  have "stored_sequence c k \<le> global_sequence c"
    using assms(1) by (simp add: sequences_bounded_def)
  with IC_write(4) [OF assms] show ?thesis by simp
qed

lemma IC_single_sequence:
  assumes "\<not> is_batch op" and "k \<in> set (IC_keys op)"
  shows "stored_sequence (InstrumentCache_apply op c) k = global_sequence c + 1"
proof -
  from assms have k: "k = hd (IC_keys op)" by (cases op) simp_all
  from single_store [OF assms(1), of c] obtain d
    where st: "InstrumentCache_apply op c =
        c\<lparr>global_sequence := global_sequence c + 1,
          cache := (cache c)(hd (IC_keys op) \<mapsto> d)\<rparr>"
      "sequence_inst d = global_sequence c + 1"
    by blast
  show ?thesis unfolding k by (rule store_effect [OF st])
qed

lemma IC_trace:
  "sequences_bounded c \<Longrightarrow>
   unat (global_sequence c) + length (concat (map IC_keys ops)) < 2 ^ 64 \<Longrightarrow>
   sequences_bounded (fold InstrumentCache_apply ops c) \<and>
   stored_sequence c k \<le> stored_sequence (fold InstrumentCache_apply ops c) k"
proof (induction ops arbitrary: c)
  case Nil
  then show ?case by simp
next
  case (Cons op ops)
  have n: "unat (global_sequence c) + length (IC_keys op) < 2 ^ 64"
    using Cons.prems(2) by simp
  note w = IC_write [OF Cons.prems(1) n]
  have "unat (global_sequence (InstrumentCache_apply op c)) + length (concat (map IC_keys ops))
      < 2 ^ 64"
    using Cons.prems(2) w(2) by simp
  from Cons.IH [OF w(1) this] w(3) [of k] show ?case by auto
qed

lemma sequences_bounded_new: "sequences_bounded InstrumentCache_new"
  by (simp add: sequences_bounded_def stored_sequence_def InstrumentCache_new_def)

lemma clears_keep_bounded:
  assumes "sequences_bounded c"
  shows "sequences_bounded (InstrumentCache_clear c ex t)"
    and "sequences_bounded (InstrumentCache_clear_all c)"
  using assms
  by (auto simp: sequences_bounded_def stored_sequence_def InstrumentCache_clear_def
      InstrumentCache_clear_all_def)

lemma clear_exchange_keeps_bounded:
  assumes "sequences_bounded c"
  shows "sequences_bounded (InstrumentCache_clear_exchange c ex)"
proof -
  have "sequences_bounded c \<Longrightarrow>
    sequences_bounded (fold (\<lambda>i c'. c'\<lparr>cache := (cache c')(ex * n + i := None)\<rparr>) xs c)"
    for xs n
  proof (induction xs arbitrary: c)
    case Nil
    then show ?case by simp
  next
    case (Cons x xs)
    have "sequences_bounded (c\<lparr>cache := (cache c)(ex * n + x := None)\<rparr>)"
      using Cons.prems by (auto simp: sequences_bounded_def stored_sequence_def)
    from Cons.IH [OF this] show ?case by (simp only: fold.simps o_apply)
  qed
  from this [OF assms] show ?thesis by (simp only: InstrumentCache_clear_exchange_def)
qed

text \<open>
  C7, as the code has it. Every write of \<open>OrderBookCache\<close> to a valid venue (\<open>update\<close>,
  \<open>update_bids\<close>, \<open>update_asks\<close>, and also \<open>clear\<close> and \<open>clear_all\<close>) stores the venue's
  previous counter plus one, as the book's sequence and as the value of \<open>get_sequence\<close>;
  the value strictly increases at each write and never decreases over any sequence of
  operations, clears included, as long as the 64-bit counter does not wrap, and two
  identical consecutive updates raise it by two. Every write of \<open>InstrumentCache\<close>
  (\<open>update\<close>, \<open>update_book\<close>, \<open>update_funding\<close>, \<open>update_mark_price\<close>, \<open>update_greeks\<close>)
  stores the cache-wide counter plus one, not the key's previous sequence plus one;
  this, and each sequence stored by \<open>update_batch\<close>, is strictly greater than the sequence
  stored under the key before, so the sequence of a key strictly increases across
  writes and never decreases over a sequence of writes, as long as the counter does
  not wrap. Here \<open>stored_sequence c (make_key ex t)\<close> is what \<open>get_sequence\<close> returns.
\<close>

theorem sequence_bumps:
  "(OB_writes op ex \<longrightarrow>
      sequence (books (OrderBookCache_apply op c) ex) = OrderBookCache_get_sequence c ex + 1 \<and>
      OrderBookCache_get_sequence (OrderBookCache_apply op c) ex
        = OrderBookCache_get_sequence c ex + 1) \<and>
   (OB_writes op ex \<and> unat (OrderBookCache_get_sequence c ex) + 1 < 2 ^ 64 \<longrightarrow>
      OrderBookCache_get_sequence c ex
        < OrderBookCache_get_sequence (OrderBookCache_apply op c) ex) \<and>
   (unat (OrderBookCache_get_sequence c ex) + length ops < 2 ^ 64 \<longrightarrow>
      OrderBookCache_get_sequence c ex
        \<le> OrderBookCache_get_sequence (fold OrderBookCache_apply ops c) ex) \<and>
   (ex < Exchange_COUNT \<longrightarrow>
      OrderBookCache_get_sequence
        (OrderBookCache_update (OrderBookCache_update c now ex b) now ex b) ex
        = OrderBookCache_get_sequence c ex + 2) \<and>
   (\<not> is_batch iop \<and> k \<in> set (IC_keys iop) \<longrightarrow>
      stored_sequence (InstrumentCache_apply iop ic) k = global_sequence ic + 1) \<and>
   (sequences_bounded ic \<and> unat (global_sequence ic) + length (IC_keys iop) < 2 ^ 64 \<and>
    k \<in> set (IC_keys iop) \<longrightarrow>
      stored_sequence ic k < stored_sequence (InstrumentCache_apply iop ic) k \<and>
      sequences_bounded (InstrumentCache_apply iop ic)) \<and>
   (sequences_bounded ic \<and>
    unat (global_sequence ic) + length (concat (map IC_keys iops)) < 2 ^ 64 \<longrightarrow>
      stored_sequence ic k' \<le> stored_sequence (fold InstrumentCache_apply iops ic) k') \<and>
   InstrumentCache_get_sequence
     (InstrumentCache_update (InstrumentCache_update ic now' ex' t d) now' ex' t d) ex' t
     = global_sequence ic + 2 \<and>
   InstrumentCache_get_sequence ic ex' t = stored_sequence ic (make_key ex' t) \<and>
   sequences_bounded InstrumentCache_new"
proof -
  have a: "OB_writes op ex \<Longrightarrow>
      sequence (books (OrderBookCache_apply op c) ex) = OrderBookCache_get_sequence c ex + 1 \<and>
      OrderBookCache_get_sequence (OrderBookCache_apply op c) ex
        = OrderBookCache_get_sequence c ex + 1"
  proof -
    assume w: "OB_writes op ex"
    then have "ex < Exchange_COUNT" by (cases op) simp_all
    with w show ?thesis
      by (simp add: OB_get_sequence_step OB_write_bumps OrderBookCache_get_sequence_def)
  qed
  have b: "OB_writes op ex \<Longrightarrow> unat (OrderBookCache_get_sequence c ex) + 1 < 2 ^ 64 \<Longrightarrow>
      OrderBookCache_get_sequence c ex
        < OrderBookCache_get_sequence (OrderBookCache_apply op c) ex"
    by (simp add: OB_get_sequence_step word_inc_less_unat)
  have e: "ex < Exchange_COUNT \<Longrightarrow>
      OrderBookCache_get_sequence
        (OrderBookCache_update (OrderBookCache_update c now ex b) now ex b) ex
        = OrderBookCache_get_sequence c ex + 2"
    by (simp add: OrderBookCache_get_sequence_def OrderBookCache_update_def Let_def)
  have f: "InstrumentCache_get_sequence
     (InstrumentCache_update (InstrumentCache_update ic now' ex' t d) now' ex' t d) ex' t
     = global_sequence ic + 2"
    by (simp add: InstrumentCache_get_sequence_def InstrumentCache_update_def Let_def)
  show ?thesis
    using a b e f OB_get_sequence_monotone [of c ex ops] IC_single_sequence [of iop k ic]
      IC_write_increases [of ic iop k] IC_write(1) [of ic iop] IC_trace [of ic iops k']
      get_sequence_stored [of ic ex' t] sequences_bounded_new
    by blast
qed

theorem sequence_bumps_witness:
  "OB_writes (OB_update 0 GEMINI ladder_book) GEMINI \<and>
   OrderBookCache_get_sequence OrderBookCache_new GEMINI = 0 \<and>
   unat (OrderBookCache_get_sequence OrderBookCache_new GEMINI) + 1 < 2 ^ 64 \<and>
   sequence (books (OrderBookCache_apply (OB_update 0 GEMINI ladder_book) OrderBookCache_new)
     GEMINI) = OrderBookCache_get_sequence OrderBookCache_new GEMINI + 1 \<and>
   OrderBookCache_get_sequence OrderBookCache_new GEMINI
     < OrderBookCache_get_sequence
         (OrderBookCache_apply (OB_update 0 GEMINI ladder_book) OrderBookCache_new) GEMINI \<and>
   unat (OrderBookCache_get_sequence OrderBookCache_new GEMINI)
     + length [OB_update 0 GEMINI ladder_book, OB_clear GEMINI, OB_clear_all] < 2 ^ 64 \<and>
   OrderBookCache_get_sequence OrderBookCache_new GEMINI
     \<le> OrderBookCache_get_sequence
         (fold OrderBookCache_apply [OB_update 0 GEMINI ladder_book, OB_clear GEMINI, OB_clear_all]
            OrderBookCache_new) GEMINI \<and>
   GEMINI < Exchange_COUNT \<and>
   OrderBookCache_get_sequence
     (OrderBookCache_update (OrderBookCache_update OrderBookCache_new 0 GEMINI ladder_book)
        0 GEMINI ladder_book) GEMINI = OrderBookCache_get_sequence OrderBookCache_new GEMINI + 2 \<and>
   \<not> is_batch (IC_update 0 GEMINI SPOT InstrumentData_default) \<and>
   make_key GEMINI SPOT \<in> set (IC_keys (IC_update 0 GEMINI SPOT InstrumentData_default)) \<and>
   sequences_bounded InstrumentCache_new \<and>
   global_sequence InstrumentCache_new = 0 \<and>
   unat (global_sequence InstrumentCache_new)
     + length (IC_keys (IC_update 0 GEMINI SPOT InstrumentData_default)) < 2 ^ 64 \<and>
   stored_sequence (InstrumentCache_apply (IC_update 0 GEMINI SPOT InstrumentData_default)
     InstrumentCache_new) (make_key GEMINI SPOT) = global_sequence InstrumentCache_new + 1 \<and>
   stored_sequence InstrumentCache_new (make_key GEMINI SPOT)
     < stored_sequence (InstrumentCache_apply (IC_update 0 GEMINI SPOT InstrumentData_default)
         InstrumentCache_new) (make_key GEMINI SPOT) \<and>
   unat (global_sequence InstrumentCache_new)
     + length (concat (map IC_keys [IC_update 0 GEMINI SPOT InstrumentData_default,
         IC_update_batch 0 GEMINI [InstrumentData_default]])) < 2 ^ 64 \<and>
   stored_sequence InstrumentCache_new (make_key GEMINI SPOT)
     \<le> stored_sequence (fold InstrumentCache_apply
           [IC_update 0 GEMINI SPOT InstrumentData_default,
            IC_update_batch 0 GEMINI [InstrumentData_default]] InstrumentCache_new)
         (make_key GEMINI SPOT)"
proof -
  have h1: "OB_writes (OB_update 0 GEMINI ladder_book) GEMINI"
    by (simp add: gemini_valid(2))
  have h2: "OrderBookCache_get_sequence OrderBookCache_new GEMINI = 0"
    by (simp add: OrderBookCache_get_sequence_def OrderBookCache_new_def)
  have h3: "unat (OrderBookCache_get_sequence OrderBookCache_new GEMINI) + 1 < 2 ^ 64"
    "unat (OrderBookCache_get_sequence OrderBookCache_new GEMINI)
       + length [OB_update 0 GEMINI ladder_book, OB_clear GEMINI, OB_clear_all] < 2 ^ 64"
    by (simp_all add: h2)
  have h4: "\<not> is_batch (IC_update 0 GEMINI SPOT InstrumentData_default)"
    "make_key GEMINI SPOT \<in> set (IC_keys (IC_update 0 GEMINI SPOT InstrumentData_default))"
    by simp_all
  have h5: "global_sequence InstrumentCache_new = 0"
    by (simp add: InstrumentCache_new_def)
  have h6: "unat (global_sequence InstrumentCache_new)
       + length (IC_keys (IC_update 0 GEMINI SPOT InstrumentData_default)) < 2 ^ 64"
    "unat (global_sequence InstrumentCache_new)
       + length (concat (map IC_keys [IC_update 0 GEMINI SPOT InstrumentData_default,
           IC_update_batch 0 GEMINI [InstrumentData_default]])) < 2 ^ 64"
    by (simp_all add: h5)
  note t = sequence_bumps [where op = "OB_update 0 GEMINI ladder_book" and ex = GEMINI
      and c = OrderBookCache_new
      and ops = "[OB_update 0 GEMINI ladder_book, OB_clear GEMINI, OB_clear_all]"
      and now = 0 and b = ladder_book
      and iop = "IC_update 0 GEMINI SPOT InstrumentData_default" and ic = InstrumentCache_new
      and k = "make_key GEMINI SPOT" and k' = "make_key GEMINI SPOT"
      and iops = "[IC_update 0 GEMINI SPOT InstrumentData_default,
                   IC_update_batch 0 GEMINI [InstrumentData_default]]"]
  show ?thesis
    using t h1 h2 h3 h4 h5 h6 gemini_valid(2) by blast
qed

text \<open>Previous sequence plus one fails for \<open>InstrumentCache\<close>: after an update of another key,
  the next update of (\<^verbatim>\<open>GEMINI\<close>, \<^verbatim>\<open>SPOT\<close>) stores 3 where the key's previous sequence
  was 1.\<close>

lemma update_sequences:
  "InstrumentCache_get_sequence one_update GEMINI SPOT = 1"
  "InstrumentCache_get_sequence two_updates GEMINI SPOT = 1"
  "InstrumentCache_get_sequence three_updates GEMINI SPOT = 3"
  by (simp_all add: one_update_def two_updates_def three_updates_def
      InstrumentCache_get_sequence_def InstrumentCache_update_def InstrumentCache_new_def
      make_key_def GEMINI_def Let_def)

theorem sequence_previous_plus_one_counterexample:
  "three_updates = InstrumentCache_update two_updates 0 GEMINI SPOT InstrumentData_default \<and>
   InstrumentCache_get_sequence two_updates GEMINI SPOT = 1 \<and>
   InstrumentCache_get_sequence three_updates GEMINI SPOT = 3 \<and>
   InstrumentCache_get_sequence three_updates GEMINI SPOT
     \<noteq> InstrumentCache_get_sequence two_updates GEMINI SPOT + 1"
  by (simp add: update_sequences) (simp add: three_updates_def)

text \<open>Outside the statement above: \<^verbatim>\<open>InstrumentCache::clear\<close> erases the entry, so the
  accessor falls back to \<open>0\<close>, where \<^verbatim>\<open>OrderBookCache::clear\<close> increments the counter.\<close>

lemma InstrumentCache_clear_resets_sequence:
  "InstrumentCache_get_sequence one_update GEMINI SPOT = 1 \<and>
   InstrumentCache_get_sequence (InstrumentCache_clear one_update GEMINI SPOT) GEMINI SPOT = 0"
  by (simp add: update_sequences)
    (simp add: InstrumentCache_get_sequence_def InstrumentCache_clear_def)

subsection \<open>Reading back what was written\<close>

text \<open>
  C8, as the code has it. For a valid venue, \<open>get\<close> after \<open>update\<close> on \<open>OrderBookCache\<close>
  returns the written book with only \<open>timestamp\<close> and \<open>sequence\<close> replaced. For
  \<open>InstrumentCache\<close>, \<open>get\<close> after \<open>update\<close> returns the written value with \<open>timestamp\<close>,
  \<open>sequence\<close> and also \<open>type\<close> replaced: \<open>update\<close> sets the type to the type of the key.
\<close>

theorem update_then_get:
  "(ex < Exchange_COUNT \<longrightarrow>
      OrderBookCache_get (OrderBookCache_update c now ex x) ex
        = x\<lparr>timestamp := now, sequence := OrderBookCache_get_sequence c ex + 1\<rparr>) \<and>
   InstrumentCache_get (InstrumentCache_update ic now' ex' t y) ex' t
     = y\<lparr>type_inst := t, timestamp_inst := now', sequence_inst := global_sequence ic + 1\<rparr>"
  by (simp add: OrderBookCache_get_def OrderBookCache_update_def OrderBookCache_get_sequence_def
      InstrumentCache_get_def InstrumentCache_update_def Let_def)

theorem update_then_get_witness:
  "GEMINI < Exchange_COUNT \<and>
   OrderBookCache_get (OrderBookCache_update OrderBookCache_new 7 GEMINI ladder_book) GEMINI
     = ladder_book\<lparr>timestamp := 7, sequence := 1\<rparr> \<and>
   InstrumentCache_get
     (InstrumentCache_update InstrumentCache_new 7 GEMINI PERPETUAL InstrumentData_default)
     GEMINI PERPETUAL
     = InstrumentData_default\<lparr>type_inst := PERPETUAL, timestamp_inst := 7, sequence_inst := 1\<rparr>"
proof -
  have s: "OrderBookCache_get_sequence OrderBookCache_new GEMINI = 0"
    by (simp add: OrderBookCache_get_sequence_def OrderBookCache_new_def)
  have g: "global_sequence InstrumentCache_new = 0" by (simp add: InstrumentCache_new_def)
  show ?thesis
    using update_then_get [where ex = GEMINI and c = OrderBookCache_new and now = 7
        and x = ladder_book and ic = InstrumentCache_new and now' = 7 and ex' = GEMINI
        and t = PERPETUAL and y = InstrumentData_default] gemini_valid(2)
    by (simp add: s g)
qed

text \<open>A value whose type is not the type of the key comes back with another type.\<close>

theorem update_then_get_counterexample:
  "type_inst (InstrumentCache_get
      (InstrumentCache_update InstrumentCache_new 7 GEMINI PERPETUAL InstrumentData_default)
      GEMINI PERPETUAL) = PERPETUAL \<and>
   type_inst InstrumentData_default = SPOT \<and>
   type_inst (InstrumentCache_get
      (InstrumentCache_update InstrumentCache_new 7 GEMINI PERPETUAL InstrumentData_default)
      GEMINI PERPETUAL) \<noteq> type_inst InstrumentData_default"
  by (simp add: InstrumentCache_get_def InstrumentCache_update_def InstrumentData_default_def
      Let_def)

subsection \<open>Missing keys and invalid venues\<close>

text \<open>The entries of keys that the operations of a trace do not write stay as they were.\<close>

lemma batch_fold_other:
  "k \<notin> (\<lambda>d. make_key ex (type_inst d)) ` set ds \<Longrightarrow>
   cache (fold (update_batch_step now ex) ds c) k = cache c k"
  by (induction ds arbitrary: c) (auto simp: update_batch_step_def Let_def)

lemma IC_other_keeps:
  "k \<notin> set (IC_keys op) \<Longrightarrow> cache (InstrumentCache_apply op c) k = cache c k"
  by (cases op)
    (simp_all add: InstrumentCache_update_def InstrumentCache_update_book_def
      InstrumentCache_update_funding_def InstrumentCache_update_mark_price_def
      InstrumentCache_update_greeks_def InstrumentCache_update_batch_def batch_fold_other
      Let_def)

lemma IC_never_written:
  "k \<notin> set (concat (map IC_keys ops)) \<Longrightarrow>
   cache (fold InstrumentCache_apply ops c) k = cache c k"
  by (induction ops arbitrary: c) (simp_all add: IC_other_keeps)

lemma OB_never_written:
  "\<not> list_ex (\<lambda>op. OB_writes op ex) ops \<Longrightarrow>
   books (fold OrderBookCache_apply ops c) ex = books c ex \<and>
   sequence_counters (fold OrderBookCache_apply ops c) ex = sequence_counters c ex"
  by (induction ops arbitrary: c) (simp_all add: OB_other_keeps)

lemma invalid_venue_discarded:
  assumes "ex \<ge> Exchange_COUNT"
  shows "OrderBookCache_update c now ex b = c"
    and "OrderBookCache_update_bids c now ex ls = c"
    and "OrderBookCache_update_asks c now ex ls = c"
    and "OrderBookCache_clear c ex = c"
  using assms
  by (simp_all add: OrderBookCache_update_def OrderBookCache_update_bids_def
      OrderBookCache_update_asks_def OrderBookCache_clear_def)

text \<open>
  C9, as the code has it. A read of \<open>InstrumentCache\<close> for a pair whose flat key is absent
  (never written, in particular) returns the default-constructed \<open>InstrumentData\<close>, which
  is zero in every field except \<open>is_call = true\<close>, \<open>max_leverage = 1\<close>, \<open>contract_size = 1\<close>
  and \<open>target_leverage = 3\<close>, and \<open>get_sequence\<close> returns 0. A read of \<open>OrderBookCache\<close>
  for an out-of-range venue, or for a venue that no operation has written, returns the
  empty book with timestamp and sequence 0, and \<open>get_sequence\<close> returns 0. A write of
  \<open>OrderBookCache\<close> (\<open>update\<close>, \<open>update_bids\<close>, \<open>update_asks\<close>, \<open>clear\<close>) with an invalid
  venue leaves the cache unchanged.
\<close>

theorem missing_key_reads:
  "(cache ic (make_key ex t) = None \<longrightarrow>
      InstrumentCache_get ic ex t = InstrumentData_default \<and>
      InstrumentCache_get_sequence ic ex t = 0) \<and>
   (k \<notin> set (concat (map IC_keys iops)) \<longrightarrow>
      cache (fold InstrumentCache_apply iops InstrumentCache_new) k = None) \<and>
   (ex' \<ge> Exchange_COUNT \<longrightarrow>
      OrderBookCache_get c ex' = OrderBook_default \<and> OrderBookCache_get_sequence c ex' = 0) \<and>
   (\<not> list_ex (\<lambda>op. OB_writes op ex'') ops \<longrightarrow>
      OrderBookCache_get (fold OrderBookCache_apply ops OrderBookCache_new) ex''
        = OrderBook_default \<and>
      OrderBookCache_get_sequence (fold OrderBookCache_apply ops OrderBookCache_new) ex'' = 0) \<and>
   (ex' \<ge> Exchange_COUNT \<longrightarrow>
      OrderBookCache_update c now ex' b = c \<and> OrderBookCache_update_bids c now ex' ls = c \<and>
      OrderBookCache_update_asks c now ex' ls = c \<and> OrderBookCache_clear c ex' = c) \<and>
   OrderBook_default = \<lparr>bids = [], asks = [], timestamp = 0, sequence = 0\<rparr> \<and>
   InstrumentData_default
     = InstrumentData_zero\<lparr>is_call := True, max_leverage_inst := 1, contract_size := 1,
         target_leverage := 3\<rparr>"
proof -
  have a: "cache ic (make_key ex t) = None \<Longrightarrow>
      InstrumentCache_get ic ex t = InstrumentData_default \<and>
      InstrumentCache_get_sequence ic ex t = 0"
    by (simp add: InstrumentCache_get_def InstrumentCache_get_sequence_def)
  have b: "k \<notin> set (concat (map IC_keys iops)) \<Longrightarrow>
      cache (fold InstrumentCache_apply iops InstrumentCache_new) k = None"
    by (simp add: IC_never_written InstrumentCache_new_def)
  have c: "ex' \<ge> Exchange_COUNT \<Longrightarrow>
      OrderBookCache_get c ex' = OrderBook_default \<and> OrderBookCache_get_sequence c ex' = 0"
    by (simp add: OrderBookCache_get_def OrderBookCache_get_sequence_def)
  have d: "\<not> list_ex (\<lambda>op. OB_writes op ex'') ops \<Longrightarrow>
      OrderBookCache_get (fold OrderBookCache_apply ops OrderBookCache_new) ex''
        = OrderBook_default \<and>
      OrderBookCache_get_sequence (fold OrderBookCache_apply ops OrderBookCache_new) ex'' = 0"
    using OB_never_written [of ex'' ops OrderBookCache_new]
    by (simp add: OrderBookCache_get_def OrderBookCache_get_sequence_def OrderBookCache_new_def)
  have e: "OrderBook_default = \<lparr>bids = [], asks = [], timestamp = 0, sequence = 0\<rparr>"
    by (simp add: OrderBook_default_def)
  have f: "InstrumentData_default
      = InstrumentData_zero\<lparr>is_call := True, max_leverage_inst := 1, contract_size := 1,
          target_leverage := 3\<rparr>"
    by (simp add: InstrumentData_default_def InstrumentData_zero_def)
  show ?thesis
    using a b c d e f invalid_venue_discarded by simp
qed

theorem missing_key_reads_witness:
  "cache InstrumentCache_new (make_key GEMINI SPOT) = None \<and>
   InstrumentCache_get InstrumentCache_new GEMINI SPOT = InstrumentData_default \<and>
   InstrumentCache_get_sequence InstrumentCache_new GEMINI SPOT = 0 \<and>
   make_key GEMINI SPOT
     \<notin> set (concat (map IC_keys [IC_update 0 GEMINI PERPETUAL InstrumentData_default])) \<and>
   cache (fold InstrumentCache_apply [IC_update 0 GEMINI PERPETUAL InstrumentData_default]
            InstrumentCache_new) (make_key GEMINI SPOT) = None \<and>
   Exchange_COUNT \<ge> Exchange_COUNT \<and>
   OrderBookCache_get ladder_cache Exchange_COUNT = OrderBook_default \<and>
   OrderBookCache_get_sequence ladder_cache Exchange_COUNT = 0 \<and>
   \<not> list_ex (\<lambda>op. OB_writes op GEMINI) [OB_update 0 BINANCE ladder_book, OB_clear BINANCE] \<and>
   OrderBookCache_get
     (fold OrderBookCache_apply [OB_update 0 BINANCE ladder_book, OB_clear BINANCE]
        OrderBookCache_new) GEMINI = OrderBook_default \<and>
   OrderBookCache_get_sequence
     (fold OrderBookCache_apply [OB_update 0 BINANCE ladder_book, OB_clear BINANCE]
        OrderBookCache_new) GEMINI = 0 \<and>
   OrderBookCache_update ladder_cache 0 Exchange_COUNT ladder_book = ladder_cache \<and>
   OrderBookCache_update_bids ladder_cache 0 Exchange_COUNT ladder_bids = ladder_cache \<and>
   OrderBookCache_update_asks ladder_cache 0 Exchange_COUNT ladder_bids = ladder_cache \<and>
   OrderBookCache_clear ladder_cache Exchange_COUNT = ladder_cache"
proof -
  have h1: "cache InstrumentCache_new (make_key GEMINI SPOT) = None"
    by (simp add: InstrumentCache_new_def)
  have h2: "make_key GEMINI SPOT
      \<notin> set (concat (map IC_keys [IC_update 0 GEMINI PERPETUAL InstrumentData_default]))"
    by (simp add: make_key_def)
  have h3: "Exchange_COUNT \<ge> Exchange_COUNT" by simp
  have h4: "\<not> list_ex (\<lambda>op. OB_writes op GEMINI)
      [OB_update 0 BINANCE ladder_book, OB_clear BINANCE]"
    by (simp add: GEMINI_def BINANCE_def)
  note t = missing_key_reads [where ic = InstrumentCache_new and ex = GEMINI and t = SPOT
      and k = "make_key GEMINI SPOT"
      and iops = "[IC_update 0 GEMINI PERPETUAL InstrumentData_default]"
      and ex' = Exchange_COUNT and c = ladder_cache
      and ex'' = GEMINI and ops = "[OB_update 0 BINANCE ladder_book, OB_clear BINANCE]"
      and now = 0 and b = ladder_book and ls = ladder_bids]
  show ?thesis
    using t h1 h2 h3 h4 by blast
qed

text \<open>The value read for a missing key is not zero in every field.\<close>

theorem missing_key_reads_counterexample:
  "cache InstrumentCache_new (make_key GEMINI SPOT) = None \<and>
   target_leverage (InstrumentCache_get InstrumentCache_new GEMINI SPOT) = 3 \<and>
   InstrumentCache_get InstrumentCache_new GEMINI SPOT \<noteq> InstrumentData_zero"
proof -
  have a: "cache InstrumentCache_new (make_key GEMINI SPOT) = None"
    by (simp add: InstrumentCache_new_def)
  have b: "target_leverage (InstrumentCache_get InstrumentCache_new GEMINI SPOT) = 3"
    by (simp add: InstrumentCache_get_def a InstrumentData_default_def)
  have "target_leverage InstrumentData_zero = 0" by (simp add: InstrumentData_zero_def)
  with b have "InstrumentCache_get InstrumentCache_new GEMINI SPOT \<noteq> InstrumentData_zero"
    by auto
  with a b show ?thesis by simp
qed

text \<open>Outside the statement above: \<^verbatim>\<open>InstrumentCache::update\<close> has no range check, so
  a write for the sentinel venue is stored and counted, where \<^verbatim>\<open>OrderBookCache::update\<close>
  returns early.\<close>

lemma InstrumentCache_stores_invalid_venue:
  "InstrumentCache_update InstrumentCache_new 0 Exchange_COUNT SPOT InstrumentData_default
     \<noteq> InstrumentCache_new"
proof -
  have "global_sequence
      (InstrumentCache_update InstrumentCache_new 0 Exchange_COUNT SPOT InstrumentData_default) = 1"
    by (simp add: InstrumentCache_update_def InstrumentCache_new_def Let_def)
  moreover have "global_sequence InstrumentCache_new = 0"
    by (simp add: InstrumentCache_new_def)
  ultimately show ?thesis by auto
qed

end
